theory Spec2Isabelle
  imports Complex_Main "HOL-Library.Sublist"
begin

section \<open>Values of the JavaScript program\<close>

text \<open>
  A JavaScript string is a sequence of UTF-16 code units; \<open>length\<close> and \<open>includes\<close> count
  and compare code units. A code unit is modelled by its number. \<open>str\<close> turns an ASCII
  literal of the source into its code units.

  A JavaScript number is modelled by a rational (timestamps by integers): the arithmetic of
  the source is taken exactly, without the rounding of IEEE doubles.
\<close>

type_synonym jsstring = "nat list"

definition str :: "string \<Rightarrow> jsstring" where
  "str s = map of_char s"

text \<open>\<open>s.includes(k)\<close>: \<open>k\<close> occurs in \<open>s\<close> as a contiguous run of code units.\<close>

definition js_includes :: "jsstring \<Rightarrow> jsstring \<Rightarrow> bool" where
  "js_includes s k = sublist k s"

text \<open>
  \<open>s.toLowerCase()\<close>. The letters that lowercase into Basic Latin are mapped as
  JavaScript maps them: \<open>A\<close> to \<open>Z\<close>, the Kelvin sign (to \<open>k\<close>) and the dotted capital I
  (to \<open>i\<close> and a combining dot). Every other code unit is left as it is; JavaScript changes
  some of them (other cased letters), but never into or out of Basic Latin or the Arabic
  script, so the occurrences of the keywords below are the same.
\<close>

definition lower_units :: "nat \<Rightarrow> jsstring" where
  "lower_units c =
     (if 65 \<le> c \<and> c \<le> 90 then [c + 32]
      else if c = 8490 then [107]
      else if c = 304 then [105, 775]
      else [c])"

definition toLowerCase :: "jsstring \<Rightarrow> jsstring" where
  "toLowerCase s = concat (map lower_units s)"

text \<open>Decimal digits of a natural number, as \<open>String(n)\<close> prints them.\<close>

fun show_nat :: "nat \<Rightarrow> jsstring" where
  "show_nat n = (if n < 10 then [48 + n] else show_nat (n div 10) @ [48 + n mod 10])"

declare show_nat.simps [simp del]

text \<open>
  \<open>x.toFixed(1)\<close> for \<open>|x|\<close> below \<open>10^21\<close>: the sign is split off, then the integer \<open>n\<close>
  with \<open>n / 10\<close> nearest to \<open>|x|\<close> is taken, the larger one on a tie, and printed with one
  decimal.
  \<open>toFixed1_tenths\<close> is that \<open>n\<close>, \<open>toFixed1_number\<close> is \<open>Number(x.toFixed(1))\<close>.
\<close>

definition toFixed1_tenths :: "rat \<Rightarrow> nat" where
  "toFixed1_tenths x = nat \<lfloor>10 * \<bar>x\<bar> + 1 / 2\<rfloor>"

definition toFixed1 :: "rat \<Rightarrow> jsstring" where
  "toFixed1 x =
     (let n = toFixed1_tenths x
      in (if x < 0 then str ''-'' else []) @ show_nat (n div 10) @ str ''.'' @ show_nat (n mod 10))"

definition toFixed1_number :: "rat \<Rightarrow> rat" where
  "toFixed1_number x =
     (if x < 0 then - (of_nat (toFixed1_tenths x) / 10) else of_nat (toFixed1_tenths x) / 10)"


section \<open>Alert evaluator\<close>

text \<open>
  \<open>AppState.systemStatus\<close> as \<open>updateSystemStatus\<close> builds it. \<open>checkAlerts\<close> reads the
  status and calls \<open>showAlert(title, message, type)\<close> once per breached threshold; the model
  returns these calls in the order the source makes them.
\<close>

record cpu_status =
  cpu_usage :: rat
  cpu_temperature :: rat
  cpu_cores :: rat
  cpu_frequency :: rat

record ram_status =
  ram_usage :: rat
  ram_total :: rat
  ram_used :: rat
  ram_free :: rat
  ram_cache :: rat

record disk_status =
  disk_usage :: rat
  disk_total :: rat
  disk_used :: rat
  disk_free :: rat

record network_status =
  net_up :: rat
  net_down :: rat
  net_connections :: rat
  net_ping :: rat

record system_status =
  cpu :: cpu_status
  ram :: ram_status
  disk :: disk_status
  network :: network_status

datatype severity = Info | Warning | Critical

record alert =
  title :: jsstring
  message :: jsstring
  alert_type :: severity

definition showAlert_call :: "jsstring \<Rightarrow> jsstring \<Rightarrow> severity \<Rightarrow> alert" where
  "showAlert_call t m ty = \<lparr>title = t, message = m, alert_type = ty\<rparr>"

definition checkAlerts :: "system_status \<Rightarrow> alert list" where
  "checkAlerts status =
     (if cpu_usage (cpu status) > 85
      then [showAlert_call (str ''High CPU Usage Alert'')
              (str ''CPU usage reached '' @ toFixed1 (cpu_usage (cpu status)) @ str ''%'')
              Warning]
      else [])
     @
     (if ram_usage (ram status) > 90
      then [showAlert_call (str ''High RAM Usage Alert'')
              (str ''RAM usage reached '' @ toFixed1 (ram_usage (ram status)) @ str ''%'')
              Critical]
      else [])
     @
     (if cpu_temperature (cpu status) > 75
      then [showAlert_call (str ''High CPU Temperature'')
              (str ''CPU temperature reached '' @ toFixed1 (cpu_temperature (cpu status))
                 @ [176] @ str ''C'')
              Warning]
      else [])"

text \<open>The snapshot of the scenario: CPU usage 90, CPU temperature 50, RAM usage 50.\<close>

definition scenario_status :: system_status where
  "scenario_status =
     \<lparr>cpu = \<lparr>cpu_usage = 90, cpu_temperature = 50, cpu_cores = 8, cpu_frequency = 16 / 5\<rparr>,
      ram = \<lparr>ram_usage = 50, ram_total = 16, ram_used = 8, ram_free = 8, ram_cache = 2\<rparr>,
      disk = \<lparr>disk_usage = 25, disk_total = 512, disk_used = 128, disk_free = 384\<rparr>,
      network = \<lparr>net_up = 0, net_down = 0, net_connections = 0, net_ping = 28\<rparr>\<rparr>"


section \<open>Metric simulator: filtering a series by time range\<close>

text \<open>
  A chart point \<open>{x, y}\<close>. \<open>x\<close> is a \<open>Date\<close> (whose \<open>getTime()\<close> is a number of
  milliseconds, or NaN for an invalid date, here \<open>None\<close>) or a plain number.
\<close>

datatype xcoord = DateX "int option" | NumX int

record point =
  x :: xcoord
  y :: rat

definition pointTime :: "point \<Rightarrow> int option" where
  "pointTime p = (case x p of DateX t \<Rightarrow> t | NumX n \<Rightarrow> Some n)"

definition timeLimit :: "jsstring \<Rightarrow> int" where
  "timeLimit rng =
     (if rng = str ''1m'' then 60 * 1000
      else if rng = str ''5m'' then 5 * 60 * 1000
      else if rng = str ''1h'' then 60 * 60 * 1000
      else if rng = str ''1d'' then 24 * 60 * 60 * 1000
      else 60 * 1000)"

text \<open>\<open>(now - pointTime) <= timeLimit\<close>; a comparison with NaN is false.\<close>

definition in_range :: "int \<Rightarrow> int \<Rightarrow> point \<Rightarrow> bool" where
  "in_range now limit p = (case pointTime p of None \<Rightarrow> False | Some t \<Rightarrow> now - t \<le> limit)"

definition filterDataByTimeRange :: "int \<Rightarrow> point list \<Rightarrow> jsstring \<Rightarrow> point list" where
  "filterDataByTimeRange now data rng = filter (in_range now (timeLimit rng)) data"


section \<open>Objects, property lookup and errors\<close>

text \<open>
  The values that cross the storage boundary and the return values of the functions below.
  Numbers inside stored values are integers (timestamps, counters); an object literal is
  the list of its own properties in insertion order. A BigInt is a value that
  \<open>JSON.stringify\<close> refuses.
\<close>

datatype jsval =
    JUndefined
  | JNull
  | JBool bool
  | JNum int
  | JBigInt int
  | JStr jsstring
  | JArr "jsval list"
  | JObj "(jsstring \<times> jsval) list"

datatype js_error = TypeError | SyntaxError | URIError | DOMException

text \<open>
  \<open>obj[key]\<close> on an object literal finds the own properties first and then the properties
  every object inherits from \<open>Object.prototype\<close>; these are functions (or, for
  \<open>__proto__\<close>, the prototype object), so they are truthy and have none of the fields of
  the table's entries.
\<close>

datatype 'a lookup = Own 'a | Inherited | Missing

definition object_prototype_names :: "jsstring list" where
  "object_prototype_names =
     map str [''constructor'', ''__proto__'', ''hasOwnProperty'', ''isPrototypeOf'',
              ''propertyIsEnumerable'', ''toLocaleString'', ''toString'', ''valueOf'',
              ''__defineGetter__'', ''__defineSetter__'', ''__lookupGetter__'',
              ''__lookupSetter__'']"

definition js_get :: "(jsstring \<times> 'a) list \<Rightarrow> jsstring \<Rightarrow> 'a lookup" where
  "js_get obj k =
     (case map_of obj k of
        Some v \<Rightarrow> Own v
      | None \<Rightarrow> if k \<in> set object_prototype_names then Inherited else Missing)"


section \<open>Operation simulator\<close>

record operation =
  op_name :: jsstring
  steps :: "jsstring list"
  duration :: rat

definition memory_optimization :: operation where
  "memory_optimization =
     \<lparr>op_name = str ''Memory Optimization'',
      steps = map str [''Checking processes'', ''Clearing cache'', ''Reallocating memory'',
                       ''Completed''],
      duration = 3000\<rparr>"

definition operations :: "(jsstring \<times> operation) list" where
  "operations =
     [(str ''memory_optimization'', memory_optimization),
      (str ''security_scan'',
       \<lparr>op_name = str ''Security Scan'',
        steps = map str [''Scanning system files'', ''Checking registry'', ''Analyzing network'',
                         ''Generating report'', ''Completed''],
        duration = 5000\<rparr>),
      (str ''troubleshoot'',
       \<lparr>op_name = str ''System Troubleshooting'',
        steps = map str [''Diagnosing problem'', ''Checking logs'', ''Finding solution'',
                         ''Applying settings'', ''Completed''],
        duration = 4000\<rparr>),
      (str ''disk_cleanup'',
       \<lparr>op_name = str ''Disk Cleanup'',
        steps = map str [''Scanning for temp files'', ''Analyzing disk usage'',
                         ''Removing junk files'', ''Optimizing storage'', ''Completed''],
        duration = 6000\<rparr>),
      (str ''registry_scan'',
       \<lparr>op_name = str ''Registry Scan'',
        steps = map str [''Scanning registry'', ''Finding errors'', ''Creating backup'',
                         ''Fixing issues'', ''Completed''],
        duration = 4500\<rparr>)]"

record log_entry =
  step :: jsstring
  progress :: rat
  timestamp :: jsstring
  status :: jsstring

record op_result =
  success :: bool
  freedMemory :: int
  threatsFound :: int
  issuesResolved :: int
  filesCleaned :: int
  registryFixed :: int
  executionTime :: rat
  log :: "log_entry list"

text \<open>
  The body of the \<open>for\<close> loop at index \<open>i\<close>. \<open>clock i\<close> is the localized time string the
  clock shows when step \<open>i\<close> is logged. The \<open>await delay(...)\<close> between two steps only lets
  time pass.
\<close>

definition log_step :: "operation \<Rightarrow> (nat \<Rightarrow> jsstring) \<Rightarrow> nat \<Rightarrow> log_entry" where
  "log_step operation clock i =
     \<lparr>step = steps operation ! i,
      progress = (of_nat (i + 1) / of_nat (length (steps operation))) * 100,
      timestamp = clock i,
      status = (if i = length (steps operation) - 1 then str ''completed''
                else str ''in_progress'')\<rparr>"

function step_loop ::
  "operation \<Rightarrow> (nat \<Rightarrow> jsstring) \<Rightarrow> nat \<Rightarrow> log_entry list \<Rightarrow> log_entry list" where
  "step_loop operation clock i lg =
     (if i < length (steps operation)
      then step_loop operation clock (i + 1) (lg @ [log_step operation clock i])
      else lg)"
  by pat_completeness auto
termination
  by (relation "measure (\<lambda>(operation, clock, i, lg). length (steps operation) - i)") auto

declare step_loop.simps [simp del]

text \<open>
  \<open>rnd k\<close> is the result of the \<open>k\<close>-th call of \<open>Math.random()\<close> in this run, a number in
  \<open>[0, 1)\<close>. Only the field that belongs to the requested type draws a second number.
\<close>

definition final_result ::
  "(nat \<Rightarrow> rat) \<Rightarrow> jsstring \<Rightarrow> operation \<Rightarrow> log_entry list \<Rightarrow> op_result" where
  "final_result rnd operationType operation lg =
     \<lparr>success = (rnd 0 > 1 / 10),
      freedMemory = (if operationType = str ''memory_optimization''
                     then \<lfloor>rnd 1 * 500\<rfloor> + 100 else 0),
      threatsFound = (if operationType = str ''security_scan'' then \<lfloor>rnd 1 * 3\<rfloor> else 0),
      issuesResolved = (if operationType = str ''troubleshoot'' then \<lfloor>rnd 1 * 5\<rfloor> + 1 else 0),
      filesCleaned = (if operationType = str ''disk_cleanup''
                      then \<lfloor>rnd 1 * 1000\<rfloor> + 100 else 0),
      registryFixed = (if operationType = str ''registry_scan'' then \<lfloor>rnd 1 * 20\<rfloor> + 5 else 0),
      executionTime = duration operation,
      log = lg\<rparr>"

text \<open>
  The promise \<open>simulateSystemOperation\<close> returns: \<open>Inr\<close> when it resolves, \<open>Inl\<close> when it
  rejects. \<open>operations[operationType] || operations.memory_optimization\<close> takes the default
  only when the lookup is falsy. An inherited property is truthy, has no \<open>steps\<close>, and
  \<open>operation.steps.length\<close> then throws a TypeError inside the async function.
\<close>

definition simulateSystemOperation ::
  "(nat \<Rightarrow> rat) \<Rightarrow> (nat \<Rightarrow> jsstring) \<Rightarrow> jsstring \<Rightarrow> js_error + op_result" where
  "simulateSystemOperation rnd clock operationType =
     (case js_get operations operationType of
        Inherited \<Rightarrow> Inl TypeError
      | Own operation \<Rightarrow>
          Inr (final_result rnd operationType operation (step_loop operation clock 0 []))
      | Missing \<Rightarrow>
          Inr (final_result rnd operationType memory_optimization
                 (step_loop memory_optimization clock 0 [])))"

text \<open>The configured step count of a type: its own entry, or the baseline.\<close>

definition configured_steps :: "jsstring \<Rightarrow> jsstring list" where
  "configured_steps operationType =
     (case map_of operations operationType of
        Some operation \<Rightarrow> steps operation
      | None \<Rightarrow> steps memory_optimization)"

text \<open>Sample inputs of the evaluations below: a clock and a random source.\<close>

definition noon_clock :: "nat \<Rightarrow> jsstring" where
  "noon_clock i = str ''12:00:00''"

definition half_random :: "nat \<Rightarrow> rat" where
  "half_random k = 1 / 2"


section \<open>Template engine: choosing the intent\<close>

text \<open>
  The keywords of \<open>AILocalEngine.processQuery\<close> are Persian words, given here by their
  UTF-16 code units (all in the Arabic block, one unit per letter).
\<close>

definition kw_behine :: jsstring where "kw_behine = [1576, 1607, 1740, 1606, 1607]"
definition kw_sorat :: jsstring where "kw_sorat = [1587, 1585, 1593, 1578]"
definition kw_kond :: jsstring where "kw_kond = [1705, 1606, 1583]"
definition kw_fayl :: jsstring where "kw_fayl = [1601, 1575, 1740, 1604]"
definition kw_pak :: jsstring where "kw_pak = [1662, 1575, 1705]"
definition kw_hazf :: jsstring where "kw_hazf = [1581, 1584, 1601]"
definition kw_shabake :: jsstring where "kw_shabake = [1588, 1576, 1705, 1607]"
definition kw_internet :: jsstring where "kw_internet = [1575, 1740, 1606, 1578, 1585, 1606, 1578]"
definition kw_ettesal :: jsstring where "kw_ettesal = [1575, 1578, 1589, 1575, 1604]"

text \<open>
  The first half of \<open>processQuery\<close>: the value of the variable \<open>intent\<close> when the template
  is looked up. (The second half substitutes the query into the template of that intent.)
\<close>

definition processQuery_intent :: "jsstring \<Rightarrow> jsstring" where
  "processQuery_intent query =
     (let lowerQuery = toLowerCase query
      in if js_includes lowerQuery kw_behine \<or> js_includes lowerQuery kw_sorat
            \<or> js_includes lowerQuery kw_kond
         then str ''system_optimization''
         else if js_includes lowerQuery kw_fayl \<or> js_includes lowerQuery kw_pak
            \<or> js_includes lowerQuery kw_hazf
         then str ''file_management''
         else if js_includes lowerQuery kw_shabake \<or> js_includes lowerQuery kw_internet
            \<or> js_includes lowerQuery kw_ettesal
         then str ''network''
         else str ''general'')"

text \<open>\<open>categorizeCommand\<close>: the categories in the insertion order of the object literal.\<close>

definition categories :: "(jsstring \<times> jsstring list) list" where
  "categories =
     [(str ''system'', map str [''cpu'', ''ram'', ''memory'', ''processing'', ''process'',
                                ''memory'', ''system'']),
      (str ''network'', map str [''network'', ''internet'', ''ping'', ''port'', ''speed'',
                                 ''download'', ''upload'']),
      (str ''security'', map str [''security'', ''virus'', ''antivirus'', ''scan'', ''malware'',
                                  ''firewall'']),
      (str ''gaming'', map str [''game'', ''gaming'', ''graphics'', ''fps'', ''performance'']),
      (str ''optimization'', map str [''optimize'', ''fast'', ''slow'', ''speed'', ''boost'',
                                      ''performance'']),
      (str ''disk'', map str [''disk'', ''storage'', ''drive'', ''hdd'', ''ssd'', ''space'']),
      (str ''automation'', map str [''script'', ''automation'', ''batch'', ''schedule'',
                                    ''task''])]"

fun categorize_loop :: "jsstring \<Rightarrow> (jsstring \<times> jsstring list) list \<Rightarrow> jsstring" where
  "categorize_loop lowerCommand [] = str ''general''"
| "categorize_loop lowerCommand ((category, keywords) # rest) =
     (if list_ex (\<lambda>keyword. js_includes lowerCommand keyword) keywords then category
      else categorize_loop lowerCommand rest)"

definition categorizeCommand :: "jsstring \<Rightarrow> jsstring" where
  "categorizeCommand command = categorize_loop (toLowerCase command) categories"

definition slow_query :: jsstring where
  "slow_query = str ''my system is slow and I need to optimize''"

text \<open>A Persian query, "sistem kond ast" (the system is slow).\<close>

definition kond_query :: jsstring where
  "kond_query = [1587, 1740, 1587, 1578, 1605, 32, 1705, 1606, 1583, 32, 1575, 1587, 1578]"


section \<open>Profile registry\<close>

datatype setting = SStr jsstring | SBool bool

record profile =
  profile_id :: jsstring
  profile_name :: jsstring
  icon :: jsstring
  description :: jsstring
  settings :: "(jsstring \<times> setting) list"
  active :: bool

record user_settings =
  theme :: jsstring
  autoOptimize :: bool
  notifications :: bool
  selectedProfile :: jsstring
  aiAssistantEnabled :: bool
  chartTimeRange :: jsstring

text \<open>The part of \<open>AppState\<close> that \<open>activateProfile\<close> reads and writes.\<close>

record app_state =
  userSettings :: user_settings
  profiles :: "(jsstring \<times> profile) list"

definition initial_profiles :: "(jsstring \<times> profile) list" where
  "initial_profiles =
     [(str ''gaming'',
       \<lparr>profile_id = str ''gaming'', profile_name = str ''Gaming'', icon = [55356, 57262],
        description = str ''Optimized for heavy gaming'',
        settings = [(str ''priority'', SStr (str ''high'')),
                    (str ''backgroundApps'', SStr (str ''minimal'')),
                    (str ''powerMode'', SStr (str ''performance'')),
                    (str ''visualEffects'', SBool False)],
        active = False\<rparr>),
      (str ''work'',
       \<lparr>profile_id = str ''work'', profile_name = str ''Work'', icon = [55357, 56508],
        description = str ''Suitable for office work and programming'',
        settings = [(str ''priority'', SStr (str ''normal'')),
                    (str ''backgroundApps'', SStr (str ''normal'')),
                    (str ''powerMode'', SStr (str ''balanced'')),
                    (str ''visualEffects'', SBool True)],
        active = False\<rparr>),
      (str ''editing'',
       \<lparr>profile_id = str ''editing'', profile_name = str ''Video Editing'',
        icon = [55356, 57260],
        description = str ''Optimized for video editing software'',
        settings = [(str ''priority'', SStr (str ''high'')),
                    (str ''backgroundApps'', SStr (str ''limited'')),
                    (str ''powerMode'', SStr (str ''performance'')),
                    (str ''visualEffects'', SBool True)],
        active = False\<rparr>),
      (str ''default'',
       \<lparr>profile_id = str ''default'', profile_name = str ''Default'', icon = [9881, 65039],
        description = str ''Normal system settings'',
        settings = [(str ''priority'', SStr (str ''normal'')),
                    (str ''backgroundApps'', SStr (str ''normal'')),
                    (str ''powerMode'', SStr (str ''balanced'')),
                    (str ''visualEffects'', SBool True)],
        active = True\<rparr>)]"

definition initial_state :: app_state where
  "initial_state =
     \<lparr>userSettings = \<lparr>theme = str ''dark'', autoOptimize = True, notifications = True,
                      selectedProfile = str ''default'', aiAssistantEnabled = True,
                      chartTimeRange = str ''5m''\<rparr>,
      profiles = initial_profiles\<rparr>"

text \<open>\<open>Object.keys(AppState.profiles).forEach(key => AppState.profiles[key].active = false)\<close>\<close>

definition deactivate_all :: "(jsstring \<times> profile) list \<Rightarrow> (jsstring \<times> profile) list" where
  "deactivate_all ps = map (\<lambda>(key, p). (key, p\<lparr>active := False\<rparr>)) ps"

text \<open>\<open>AppState.profiles[profileId].active = true\<close> on an own property.\<close>

definition set_active :: "jsstring \<Rightarrow> (jsstring \<times> profile) list \<Rightarrow> (jsstring \<times> profile) list" where
  "set_active profileId ps =
     map (\<lambda>(key, p). if key = profileId then (key, p\<lparr>active := True\<rparr>) else (key, p)) ps"

text \<open>
  \<open>activateProfile\<close> returns the pair of its return value and the new state. The function
  has no \<open>return\<close> statement, so the call evaluates to \<open>undefined\<close>. The calls that only
  redraw, notify and track (\<open>loadSystemProfiles\<close>, \<open>applyProfileSettings\<close>, \<open>showToast\<close>,
  \<open>trackEvent\<close>) leave this part of the state as it is. For an inherited name the test
  \<open>AppState.profiles[profileId]\<close> is truthy as well: the flag is then written to an object
  outside the registry, and the selected profile is set.
\<close>

definition activateProfile :: "jsstring \<Rightarrow> app_state \<Rightarrow> jsval \<times> app_state" where
  "activateProfile profileId s =
     (let s1 = s\<lparr>profiles := deactivate_all (profiles s)\<rparr>
      in case js_get (profiles s1) profileId of
           Own p \<Rightarrow>
             (JUndefined,
              s1\<lparr>profiles := set_active profileId (profiles s1),
                 userSettings := (userSettings s1)\<lparr>selectedProfile := profileId\<rparr>\<rparr>)
         | Inherited \<Rightarrow>
             (JUndefined, s1\<lparr>userSettings := (userSettings s1)\<lparr>selectedProfile := profileId\<rparr>\<rparr>)
         | Missing \<Rightarrow> (JUndefined, s1))"

text \<open>The ids of the profiles with \<open>active = true\<close>, in registry order.\<close>

definition active_ids :: "app_state \<Rightarrow> jsstring list" where
  "active_ids s = map fst (filter (\<lambda>(key, p). active p) (profiles s))"


section \<open>Metric simulator: generating a series\<close>

text \<open>
  \<open>generateChartData\<close> for an integer \<open>count\<close>. \<open>now\<close> is \<open>Date.now()\<close>, \<open>rnd k\<close> the
  \<open>k\<close>-th result of \<open>Math.random()\<close> and \<open>sine\<close> stands for \<open>Math.sin\<close>; the results below
  hold for every function in its place.
\<close>

definition chart_value ::
  "(rat \<Rightarrow> rat) \<Rightarrow> rat \<Rightarrow> rat \<Rightarrow> jsstring \<Rightarrow> int \<Rightarrow> rat \<Rightarrow> rat" where
  "chart_value sine mn mx type i r =
     (let baseValue = (mn + mx) / 2;
          randomFactor = r * (1 / 10) - 5 / 100;
          v = (if type = str ''cpu''
               then baseValue * (1 + sine (of_int i * (1 / 10)) * (3 / 10) + randomFactor)
               else if type = str ''ram''
               then baseValue * (1 + sine (of_int i * (5 / 100)) * (2 / 10) + randomFactor)
               else if type = str ''disk''
               then baseValue * (1 + sine (of_int i * (3 / 100)) * (15 / 100) + randomFactor)
               else if type = str ''network''
               then baseValue * (1 + sine (of_int i * (2 / 10)) * (4 / 10) + randomFactor)
               else baseValue * (1 + randomFactor))
      in max mn (min mx v))"

definition chart_point ::
  "int \<Rightarrow> (nat \<Rightarrow> rat) \<Rightarrow> (rat \<Rightarrow> rat) \<Rightarrow> rat \<Rightarrow> rat \<Rightarrow> jsstring \<Rightarrow> int \<Rightarrow> nat \<Rightarrow> point" where
  "chart_point now rnd sine mn mx type i k =
     \<lparr>x = DateX (Some (now - i * 1000)),
      y = toFixed1_number (chart_value sine mn mx type i (rnd k))\<rparr>"

text \<open>The loop \<open>for (let i = count - 1; i >= 0; i--)\<close>; \<open>k\<close> counts the iterations done.\<close>

function chart_loop ::
  "int \<Rightarrow> (nat \<Rightarrow> rat) \<Rightarrow> (rat \<Rightarrow> rat) \<Rightarrow> rat \<Rightarrow> rat \<Rightarrow> jsstring \<Rightarrow> int \<Rightarrow> nat \<Rightarrow> point list
     \<Rightarrow> point list" where
  "chart_loop now rnd sine mn mx type i k data =
     (if i \<ge> 0
      then chart_loop now rnd sine mn mx type (i - 1) (k + 1)
             (data @ [chart_point now rnd sine mn mx type i k])
      else data)"
  by pat_completeness auto
termination
  by (relation "measure (\<lambda>(now, rnd, sine, mn, mx, type, i, k, data). nat (i + 1))") auto

declare chart_loop.simps [simp del]

definition generateChartData ::
  "int \<Rightarrow> (nat \<Rightarrow> rat) \<Rightarrow> (rat \<Rightarrow> rat) \<Rightarrow> int \<Rightarrow> rat \<Rightarrow> rat \<Rightarrow> jsstring \<Rightarrow> point list" where
  "generateChartData now rnd sine count mn mx type =
     chart_loop now rnd sine mn mx type (count - 1) 0 []"

definition flat_sine :: "rat \<Rightarrow> rat" where
  "flat_sine a = 0"


section \<open>Storage adapter\<close>

subsection \<open>The platform\<close>

text \<open>
  The functions of the JavaScript platform that the storage code calls are parameters of
  the model. Each returns \<open>Inr\<close> with its result or \<open>Inl\<close> with the exception it throws.
  \<open>JSON.stringify\<close> is only applied to objects, arrays and \<open>null\<close>, for which it returns a
  string or throws. \<open>quota_accepts st key text\<close> says whether \<open>localStorage.setItem\<close> stores
  the text (otherwise it throws). \<open>to_number_object\<close> is the conversion to a number of a
  string, an array or an object.
\<close>

datatype jsnum = NaN | Fin rat | PosInf | NegInf

type_synonym store = "jsstring \<Rightarrow> jsstring option"

record platform =
  json_stringify :: "jsval \<Rightarrow> js_error + jsstring"
  json_parse :: "jsstring \<Rightarrow> js_error + jsval"
  btoa :: "jsstring \<Rightarrow> js_error + jsstring"
  atob :: "jsstring \<Rightarrow> js_error + jsstring"
  encodeURIComponent :: "jsstring \<Rightarrow> js_error + jsstring"
  decodeURIComponent :: "jsstring \<Rightarrow> js_error + jsstring"
  quota_accepts :: "store \<Rightarrow> jsstring \<Rightarrow> jsstring \<Rightarrow> bool"
  to_number_object :: "jsval \<Rightarrow> js_error + jsnum"

text \<open>Sequencing of calls that may throw: the first exception ends the block.\<close>

definition and_then :: "js_error + 'a \<Rightarrow> ('a \<Rightarrow> js_error + 'b) \<Rightarrow> js_error + 'b" where
  "and_then m f = (case m of Inl e \<Rightarrow> Inl e | Inr v \<Rightarrow> f v)"

definition setItem :: "platform \<Rightarrow> store \<Rightarrow> jsstring \<Rightarrow> jsstring \<Rightarrow> js_error + store" where
  "setItem P st key text =
     (if quota_accepts P st key text then Inr (st(key \<mapsto> text)) else Inl DOMException)"

definition removeItem :: "store \<Rightarrow> jsstring \<Rightarrow> store" where
  "removeItem st key = st(key := None)"

text \<open>\<open>!stored\<close> for the result of \<open>getItem\<close>: \<open>null\<close> or the empty string.\<close>

definition no_item :: "jsstring option \<Rightarrow> bool" where
  "no_item stored = (case stored of None \<Rightarrow> True | Some text \<Rightarrow> text = [])"

text \<open>Truthiness, \<open>typeof v === 'object'\<close>, and reading a data field \<open>v.name\<close>.\<close>

definition truthy :: "jsval \<Rightarrow> bool" where
  "truthy v =
     (case v of
        JUndefined \<Rightarrow> False
      | JNull \<Rightarrow> False
      | JBool b \<Rightarrow> b
      | JNum n \<Rightarrow> n \<noteq> 0
      | JBigInt n \<Rightarrow> n \<noteq> 0
      | JStr text \<Rightarrow> text \<noteq> []
      | JArr xs \<Rightarrow> True
      | JObj kvs \<Rightarrow> True)"

definition typeof_object :: "jsval \<Rightarrow> bool" where
  "typeof_object v = (case v of JNull \<Rightarrow> True | JArr xs \<Rightarrow> True | JObj kvs \<Rightarrow> True | _ \<Rightarrow> False)"

text \<open>
  The fields read below (\<open>value\<close>, \<open>timestamp\<close>, \<open>ttl\<close>) are defined by no prototype: on a
  primitive, an array or an object without the field the result is \<open>undefined\<close>; on
  \<open>null\<close> and \<open>undefined\<close> the access throws.
\<close>

definition get_field :: "jsval \<Rightarrow> jsstring \<Rightarrow> js_error + jsval" where
  "get_field v name =
     (case v of
        JUndefined \<Rightarrow> Inl TypeError
      | JNull \<Rightarrow> Inl TypeError
      | JObj kvs \<Rightarrow> (case map_of kvs name of Some w \<Rightarrow> Inr w | None \<Rightarrow> Inr JUndefined)
      | _ \<Rightarrow> Inr JUndefined)"

text \<open>Conversion to a number, subtraction from a finite number, and \<open>a > b\<close>.\<close>

definition to_number :: "platform \<Rightarrow> jsval \<Rightarrow> js_error + jsnum" where
  "to_number P v =
     (case v of
        JUndefined \<Rightarrow> Inr NaN
      | JNull \<Rightarrow> Inr (Fin 0)
      | JBool b \<Rightarrow> Inr (Fin (if b then 1 else 0))
      | JNum n \<Rightarrow> Inr (Fin (of_int n))
      | JBigInt n \<Rightarrow> Inl TypeError
      | _ \<Rightarrow> to_number_object P v)"

definition num_minus :: "int \<Rightarrow> jsnum \<Rightarrow> jsnum" where
  "num_minus a b =
     (case b of NaN \<Rightarrow> NaN | Fin r \<Rightarrow> Fin (of_int a - r) | PosInf \<Rightarrow> NegInf | NegInf \<Rightarrow> PosInf)"

definition num_gt :: "jsnum \<Rightarrow> jsnum \<Rightarrow> bool" where
  "num_gt a b =
     (case (a, b) of
        (NaN, _) \<Rightarrow> False
      | (_, NaN) \<Rightarrow> False
      | (Fin r, Fin q) \<Rightarrow> r > q
      | (Fin r, NegInf) \<Rightarrow> True
      | (PosInf, Fin q) \<Rightarrow> True
      | (PosInf, NegInf) \<Rightarrow> True
      | _ \<Rightarrow> False)"

text \<open>\<open>/^[A-Za-z0-9+/=]+$/.test(text)\<close>\<close>

definition base64_unit :: "nat \<Rightarrow> bool" where
  "base64_unit c =
     ((65 \<le> c \<and> c \<le> 90) \<or> (97 \<le> c \<and> c \<le> 122) \<or> (48 \<le> c \<and> c \<le> 57)
      \<or> c = 43 \<or> c = 47 \<or> c = 61)"

definition base64_shape :: "jsstring \<Rightarrow> bool" where
  "base64_shape text = (text \<noteq> [] \<and> list_all base64_unit text)"

subsection \<open>\<open>saveToStorage\<close> and \<open>loadFromStorage\<close>\<close>

definition EXPIRY_TIME :: int where
  "EXPIRY_TIME = 30 * 24 * 60 * 60 * 1000"

definition storageData :: "jsval \<Rightarrow> int \<Rightarrow> jsval" where
  "storageData dataToSave now =
     JObj [(str ''value'', dataToSave), (str ''timestamp'', JNum now),
           (str ''version'', JStr (str ''1.0''))]"

text \<open>The value of \<open>dataToSave\<close> after the compression branch.\<close>

definition dataToSave :: "platform \<Rightarrow> jsval \<Rightarrow> bool \<Rightarrow> js_error + jsval" where
  "dataToSave P data useCompression =
     (if useCompression \<and> typeof_object data
      then and_then (json_stringify P data) (\<lambda>jsonStr.
             if length jsonStr > 5000
             then and_then (encodeURIComponent P jsonStr) (\<lambda>u.
                  and_then (btoa P u) (\<lambda>b. Inr (JStr b)))
             else Inr data)
      else Inr data)"

text \<open>The \<open>try\<close> block of \<open>saveToStorage\<close>; \<open>now\<close> is \<open>Date.now()\<close>.\<close>

definition saveToStorage_try ::
  "platform \<Rightarrow> int \<Rightarrow> store \<Rightarrow> jsstring \<Rightarrow> jsval \<Rightarrow> bool \<Rightarrow> js_error + store" where
  "saveToStorage_try P now st key data useCompression =
     and_then (dataToSave P data useCompression) (\<lambda>d.
     and_then (json_stringify P (storageData d now)) (\<lambda>text.
     setItem P st key text))"

text \<open>
  \<open>saveToStorage\<close> with its \<open>catch\<close>: the returned boolean and the store afterwards. The
  result is a sum so that an exception that left the function would be \<open>Inl\<close>.
\<close>

definition saveToStorage ::
  "platform \<Rightarrow> int \<Rightarrow> store \<Rightarrow> jsstring \<Rightarrow> jsval \<Rightarrow> bool \<Rightarrow> js_error + (bool \<times> store)" where
  "saveToStorage P now st key data useCompression =
     (case saveToStorage_try P now st key data useCompression of
        Inr st' \<Rightarrow> Inr (True, st')
      | Inl error \<Rightarrow> Inr (False, st))"

text \<open>The inner \<open>try\<close> of \<open>loadFromStorage\<close>: decoding a string that looks compressed.\<close>

definition decompress :: "platform \<Rightarrow> jsval \<Rightarrow> jsval" where
  "decompress P data =
     (case data of
        JStr text \<Rightarrow>
          (if length text > 100 \<and> base64_shape text
           then (case and_then (atob P text) (\<lambda>a.
                      and_then (decodeURIComponent P a) (\<lambda>u. json_parse P u)) of
                   Inr v \<Rightarrow> v
                 | Inl error \<Rightarrow> data)
           else data)
      | _ \<Rightarrow> data)"

definition loadFromStorage_try ::
  "platform \<Rightarrow> int \<Rightarrow> store \<Rightarrow> jsstring \<Rightarrow> js_error + (jsval \<times> store)" where
  "loadFromStorage_try P now st key =
     (case st key of
        None \<Rightarrow> Inr (JNull, st)
      | Some stored \<Rightarrow>
          if stored = [] then Inr (JNull, st)
          else and_then (json_parse P stored) (\<lambda>parsed.
               and_then (get_field parsed (str ''timestamp'')) (\<lambda>ts.
               and_then (to_number P ts) (\<lambda>n.
               if num_gt (num_minus now n) (Fin (of_int EXPIRY_TIME))
               then Inr (JNull, removeItem st key)
               else and_then (get_field parsed (str ''value'')) (\<lambda>data.
                    Inr (decompress P data, st))))))"

definition loadFromStorage ::
  "platform \<Rightarrow> int \<Rightarrow> store \<Rightarrow> jsstring \<Rightarrow> js_error + (jsval \<times> store)" where
  "loadFromStorage P now st key =
     (case loadFromStorage_try P now st key of
        Inr r \<Rightarrow> Inr r
      | Inl error \<Rightarrow> Inr (JNull, st))"

subsection \<open>\<open>Utils.setLocalStorage\<close> and \<open>Utils.getLocalStorage\<close>\<close>

text \<open>
  The item carries the \<open>ttl\<close> argument, \<open>null\<close> when the caller gives none.
  \<open>setLocalStorage\<close> has no \<open>try\<close>: an exception leaves it.
\<close>

definition ttl_item :: "jsval \<Rightarrow> int \<Rightarrow> jsval \<Rightarrow> jsval" where
  "ttl_item v now ttl =
     JObj [(str ''value'', v), (str ''timestamp'', JNum now), (str ''ttl'', ttl)]"

definition setLocalStorage ::
  "platform \<Rightarrow> int \<Rightarrow> store \<Rightarrow> jsstring \<Rightarrow> jsval \<Rightarrow> jsval \<Rightarrow> js_error + store" where
  "setLocalStorage P now st key v ttl =
     and_then (json_stringify P (ttl_item v now ttl)) (\<lambda>text. setItem P st key text)"

text \<open>\<open>a > ttl\<close> for a number \<open>a\<close>; a BigInt is compared by its value.\<close>

definition gt_value :: "platform \<Rightarrow> jsnum \<Rightarrow> jsval \<Rightarrow> js_error + bool" where
  "gt_value P a v =
     (case v of
        JBigInt n \<Rightarrow> Inr (num_gt a (Fin (of_int n)))
      | _ \<Rightarrow> and_then (to_number P v) (\<lambda>b. Inr (num_gt a b)))"

definition getLocalStorage_try ::
  "platform \<Rightarrow> int \<Rightarrow> store \<Rightarrow> jsstring \<Rightarrow> jsstring \<Rightarrow> js_error + (jsval \<times> store)" where
  "getLocalStorage_try P now st key itemStr =
     and_then (json_parse P itemStr) (\<lambda>item.
     and_then (get_field item (str ''ttl'')) (\<lambda>ttl.
     and_then (if truthy ttl
               then and_then (get_field item (str ''timestamp'')) (\<lambda>ts.
                    and_then (to_number P ts) (\<lambda>n. gt_value P (num_minus now n) ttl))
               else Inr False) (\<lambda>expired.
     if expired then Inr (JNull, removeItem st key)
     else and_then (get_field item (str ''value'')) (\<lambda>v. Inr (v, st)))))"

definition getLocalStorage ::
  "platform \<Rightarrow> int \<Rightarrow> store \<Rightarrow> jsstring \<Rightarrow> js_error + (jsval \<times> store)" where
  "getLocalStorage P now st key =
     (if no_item (st key) then Inr (JNull, st)
      else (case getLocalStorage_try P now st key (the (st key)) of
              Inr r \<Rightarrow> Inr r
            | Inl error \<Rightarrow> Inr (JNull, st)))"

text \<open>
  \<open>stringified P v\<close> is the text \<open>JSON.stringify\<close> gives for \<open>v\<close>. A value passes the codec
  when this text is not empty and \<open>JSON.parse\<close> reads it back as the same value.
\<close>

definition stringified :: "platform \<Rightarrow> jsval \<Rightarrow> jsstring" where
  "stringified P v = (case json_stringify P v of Inr text \<Rightarrow> text | Inl error \<Rightarrow> [])"

definition codec_roundtrip :: "platform \<Rightarrow> jsval \<Rightarrow> bool" where
  "codec_roundtrip P v =
     (case json_stringify P v of
        Inr text \<Rightarrow> text \<noteq> [] \<and> json_parse P text = Inr v
      | Inl error \<Rightarrow> False)"


subsection \<open>Storing and then reading\<close>

text \<open>
  The scenarios of the storage claims: a value is stored at time \<open>t0\<close> into the store
  \<open>st\<close> and the key is read at time \<open>t1\<close>; the result is what the read returns.
\<close>

definition save_then_load ::
  "platform \<Rightarrow> store \<Rightarrow> jsstring \<Rightarrow> jsval \<Rightarrow> bool \<Rightarrow> int \<Rightarrow> int \<Rightarrow> js_error + jsval" where
  "save_then_load P st key data useCompression t0 t1 =
     and_then (saveToStorage P t0 st key data useCompression) (\<lambda>(ok, st').
     and_then (loadFromStorage P t1 st' key) (\<lambda>(v, st''). Inr v))"

definition set_then_get ::
  "platform \<Rightarrow> store \<Rightarrow> jsstring \<Rightarrow> jsval \<Rightarrow> jsval \<Rightarrow> int \<Rightarrow> int \<Rightarrow> js_error + jsval" where
  "set_then_get P st key v ttl t0 t1 =
     and_then (setLocalStorage P t0 st key v ttl) (\<lambda>st'.
     and_then (getLocalStorage P t1 st' key) (\<lambda>(w, st''). Inr w))"

text \<open>An array or an object, the structured values of the round-trip claim.\<close>

definition structured :: "jsval \<Rightarrow> bool" where
  "structured v = (case v of JArr xs \<Rightarrow> True | JObj kvs \<Rightarrow> True | _ \<Rightarrow> False)"

text \<open>
  The size-based transform is applied to \<open>data\<close>, and the platform undoes it: the encoded
  text is base64 text no shorter than the JSON text, and \<open>atob\<close>, \<open>decodeURIComponent\<close> and
  \<open>JSON.parse\<close> invert \<open>btoa\<close>, \<open>encodeURIComponent\<close> and \<open>JSON.stringify\<close> on it.
\<close>

definition transform_applied :: "platform \<Rightarrow> jsval \<Rightarrow> bool \<Rightarrow> bool" where
  "transform_applied P data useCompression =
     (useCompression \<and> typeof_object data
      \<and> (case json_stringify P data of Inr jsonStr \<Rightarrow> length jsonStr > 5000 | Inl error \<Rightarrow> False))"

definition transform_roundtrip :: "platform \<Rightarrow> jsval \<Rightarrow> bool" where
  "transform_roundtrip P data =
     (case json_stringify P data of
        Inl error \<Rightarrow> False
      | Inr jsonStr \<Rightarrow>
          (case encodeURIComponent P jsonStr of
             Inl error \<Rightarrow> False
           | Inr u \<Rightarrow>
               (case btoa P u of
                  Inl error \<Rightarrow> False
                | Inr b \<Rightarrow>
                    base64_shape b \<and> length jsonStr \<le> length b \<and> atob P b = Inr u
                    \<and> decodeURIComponent P u = Inr jsonStr
                    \<and> json_parse P jsonStr = Inr data)))"


section \<open>Chat history manager\<close>

definition CHAT_HISTORY :: jsstring where
  "CHAT_HISTORY = str ''arka_chat_history''"

text \<open>\<open>n.toString(36)\<close> for an integer.\<close>

fun show_nat36 :: "nat \<Rightarrow> jsstring" where
  "show_nat36 n =
     (if n < 36 then [if n < 10 then 48 + n else 87 + n]
      else show_nat36 (n div 36) @ [if n mod 36 < 10 then 48 + n mod 36 else 87 + n mod 36])"

declare show_nat36.simps [simp del]

definition toString36 :: "int \<Rightarrow> jsstring" where
  "toString36 n = (if n < 0 then str ''-'' @ show_nat36 (nat (- n)) else show_nat36 (nat n))"

text \<open>
  One call \<open>addEntry(userInput, aiResponse, category)\<close>: its arguments, the value of
  \<open>Date.now()\<close> during the call, and \<open>Math.random().toString(36).substr(2)\<close>.
\<close>

record call =
  c_now :: int
  c_suffix :: jsstring
  c_userInput :: jsval
  c_aiResponse :: jsval
  c_category :: jsval

definition newEntry :: "call \<Rightarrow> jsval" where
  "newEntry c =
     JObj [(str ''id'', JStr (toString36 (c_now c) @ c_suffix c)),
           (str ''userInput'', c_userInput c),
           (str ''aiResponse'', c_aiResponse c),
           (str ''category'',
            if c_category c = JUndefined then JStr (str ''general'') else c_category c),
           (str ''timestamp'', JNum (c_now c)),
           (str ''tags'', JArr [])]"

text \<open>
  \<open>const history = loadFromStorage(STORAGE_KEYS.CHAT_HISTORY) || []\<close>, as the list that
  \<open>history.unshift\<close> works on; \<open>unshift\<close> is not a function unless \<open>history\<close> is an array.
\<close>

definition read_history :: "platform \<Rightarrow> int \<Rightarrow> store \<Rightarrow> js_error + (jsval list \<times> store)" where
  "read_history P now st =
     and_then (loadFromStorage P now st CHAT_HISTORY) (\<lambda>(loaded, st1).
     if truthy loaded
     then (case loaded of JArr xs \<Rightarrow> Inr (xs, st1) | _ \<Rightarrow> Inl TypeError)
     else Inr ([], st1))"

text \<open>\<open>history.unshift(newEntry); if (history.length > 100) history.pop();\<close>\<close>

definition unshift_capped :: "jsval \<Rightarrow> jsval list \<Rightarrow> jsval list" where
  "unshift_capped e xs = (let h = e # xs in if length h > 100 then butlast h else h)"

definition addEntry :: "platform \<Rightarrow> store \<Rightarrow> call \<Rightarrow> js_error + (jsval \<times> store)" where
  "addEntry P st c =
     and_then (read_history P (c_now c) st) (\<lambda>(xs, st1).
     and_then (saveToStorage P (c_now c) st1 CHAT_HISTORY
                 (JArr (unshift_capped (newEntry c) xs)) False) (\<lambda>(ok, st2).
     Inr (newEntry c, st2)))"

text \<open>A sequence of calls, one after the other.\<close>

fun addEntry_all :: "platform \<Rightarrow> store \<Rightarrow> call list \<Rightarrow> js_error + store" where
  "addEntry_all P st [] = Inr st"
| "addEntry_all P st (c # cs) =
     and_then (addEntry P st c) (\<lambda>(e, st'). addEntry_all P st' cs)"

text \<open>
  The array persisted under the chat key, whatever its age; \<open>Some []\<close> when the key is
  empty, \<open>None\<close> when the stored text does not hold an array.
\<close>

definition stored_log :: "platform \<Rightarrow> store \<Rightarrow> jsval list option" where
  "stored_log P st =
     (case st CHAT_HISTORY of
        None \<Rightarrow> Some []
      | Some text \<Rightarrow>
          if text = [] then Some []
          else (case json_parse P text of
                  Inr parsed \<Rightarrow>
                    (case get_field parsed (str ''value'') of
                       Inr (JArr xs) \<Rightarrow> Some xs
                     | _ \<Rightarrow> None)
                | Inl error \<Rightarrow> None))"

text \<open>
  The time at which the persisted envelope was written, when it carries an integer
  timestamp. The log has expired at \<open>now\<close> when more than \<open>EXPIRY_TIME\<close> has passed since
  then: this is the test \<open>Date.now() - parsed.timestamp > EXPIRY_TIME\<close> of
  \<open>loadFromStorage\<close>. A store is stamped when the chat key is empty or its envelope
  carries such a timestamp, as every envelope written by \<open>saveToStorage\<close> does.
\<close>

definition stored_time :: "platform \<Rightarrow> store \<Rightarrow> int option" where
  "stored_time P st =
     (case st CHAT_HISTORY of
        None \<Rightarrow> None
      | Some stored \<Rightarrow>
          if stored = [] then None
          else (case json_parse P stored of
                  Inr parsed \<Rightarrow>
                    (case get_field parsed (str ''timestamp'') of
                       Inr (JNum t) \<Rightarrow> Some t
                     | _ \<Rightarrow> None)
                | Inl error \<Rightarrow> None))"

definition log_expired :: "platform \<Rightarrow> int \<Rightarrow> store \<Rightarrow> bool" where
  "log_expired P now st =
     (case stored_time P st of None \<Rightarrow> False | Some t \<Rightarrow> now - t > EXPIRY_TIME)"

definition log_stamped :: "platform \<Rightarrow> store \<Rightarrow> bool" where
  "log_stamped P st = (no_item (st CHAT_HISTORY) \<or> stored_time P st \<noteq> None)"

text \<open>
  The storage is faithful along a run: every array a call hands to \<open>saveToStorage\<close> is
  accepted by the quota and passes the codec. \<open>written c xs\<close> is the envelope the call
  \<open>c\<close> writes when it has read the entries \<open>xs\<close>.
\<close>

definition written :: "call \<Rightarrow> jsval list \<Rightarrow> jsval" where
  "written c xs = storageData (JArr (unshift_capped (newEntry c) xs)) (c_now c)"

fun faithful_run :: "platform \<Rightarrow> store \<Rightarrow> call list \<Rightarrow> bool" where
  "faithful_run P st [] = True"
| "faithful_run P st (c # cs) =
     (case read_history P (c_now c) st of
        Inl error \<Rightarrow> False
      | Inr (xs, st1) \<Rightarrow>
          codec_roundtrip P (written c xs)
          \<and> quota_accepts P st1 CHAT_HISTORY (stringified P (written c xs))
          \<and> faithful_run P (st1(CHAT_HISTORY \<mapsto> stringified P (written c xs))) cs)"


section \<open>A sample platform\<close>

text \<open>
  The browser's \<open>JSON\<close>, \<open>btoa\<close>, \<open>atob\<close>, \<open>encodeURIComponent\<close> and
  \<open>decodeURIComponent\<close> are not code of the repository. The results about the storage code
  hold for every platform; the functions of this section stand in for the browser when a
  concrete example is run. They cover compact JSON text with integers as the only numbers
  and object keys in text order, base64 with padding, percent-encoded UTF-8, a quota of
  five million code units, and decimal strings as the only operands that convert to a
  number.
\<close>

definition show_int :: "int \<Rightarrow> jsstring" where
  "show_int n = (if n < 0 then str ''-'' @ show_nat (nat (- n)) else show_nat (nat n))"

definition hex_digit :: "nat \<Rightarrow> nat" where
  "hex_digit n = (if n < 10 then 48 + n else 87 + n)"

definition quote_unit :: "nat \<Rightarrow> jsstring" where
  "quote_unit c =
     (if c = 34 then [92, 34]
      else if c = 92 then [92, 92]
      else if c = 8 then [92, 98]
      else if c = 12 then [92, 102]
      else if c = 10 then [92, 110]
      else if c = 13 then [92, 114]
      else if c = 9 then [92, 116]
      else if c < 32 then [92, 117, 48, 48, hex_digit (c div 16), hex_digit (c mod 16)]
      else [c])"

definition quote :: "jsstring \<Rightarrow> jsstring" where
  "quote text = [34] @ concat (map quote_unit text) @ [34]"

fun join_comma :: "jsstring list \<Rightarrow> jsstring" where
  "join_comma [] = []"
| "join_comma [a] = a"
| "join_comma (a # b # rest) = a @ [44] @ join_comma (b # rest)"

fun collect :: "(js_error + 'a) list \<Rightarrow> js_error + 'a list" where
  "collect [] = Inr []"
| "collect (m # ms) = and_then m (\<lambda>v. and_then (collect ms) (\<lambda>vs. Inr (v # vs)))"

fun stringify_value :: "jsval \<Rightarrow> js_error + jsstring" where
  "stringify_value JUndefined = Inr (str ''null'')"
| "stringify_value JNull = Inr (str ''null'')"
| "stringify_value (JBool b) = Inr (if b then str ''true'' else str ''false'')"
| "stringify_value (JNum n) = Inr (show_int n)"
| "stringify_value (JBigInt n) = Inl TypeError"
| "stringify_value (JStr text) = Inr (quote text)"
| "stringify_value (JArr xs) =
     and_then (collect (map stringify_value xs)) (\<lambda>parts. Inr ([91] @ join_comma parts @ [93]))"
| "stringify_value (JObj kvs) =
     and_then (collect (map (\<lambda>(k, v). and_then (stringify_value v) (\<lambda>t. Inr (quote k @ [58] @ t)))
                          (filter (\<lambda>(k, v). v \<noteq> JUndefined) kvs)))
       (\<lambda>parts. Inr ([123] @ join_comma parts @ [125]))"


definition is_ws :: "nat \<Rightarrow> bool" where
  "is_ws c = (c = 32 \<or> c = 9 \<or> c = 10 \<or> c = 13)"

definition skip_ws :: "jsstring \<Rightarrow> jsstring" where
  "skip_ws text = dropWhile is_ws text"

definition is_digit :: "nat \<Rightarrow> bool" where
  "is_digit c = (48 \<le> c \<and> c \<le> 57)"

definition hex_value :: "nat \<Rightarrow> nat option" where
  "hex_value c =
     (if 48 \<le> c \<and> c \<le> 57 then Some (c - 48)
      else if 97 \<le> c \<and> c \<le> 102 then Some (c - 87)
      else if 65 \<le> c \<and> c \<le> 70 then Some (c - 55)
      else None)"

definition hex4 :: "nat \<Rightarrow> nat \<Rightarrow> nat \<Rightarrow> nat \<Rightarrow> nat option" where
  "hex4 a b c d =
     (case (hex_value a, hex_value b, hex_value c, hex_value d) of
        (Some p, Some q, Some r, Some t) \<Rightarrow> Some (((p * 16 + q) * 16 + r) * 16 + t)
      | _ \<Rightarrow> None)"

definition unescape :: "nat \<Rightarrow> nat option" where
  "unescape e =
     (if e = 34 then Some 34
      else if e = 92 then Some 92
      else if e = 47 then Some 47
      else if e = 98 then Some 8
      else if e = 102 then Some 12
      else if e = 110 then Some 10
      else if e = 114 then Some 13
      else if e = 116 then Some 9
      else None)"

definition cons_fst :: "'a \<Rightarrow> ('a list \<times> 'b) option \<Rightarrow> ('a list \<times> 'b) option" where
  "cons_fst a r = map_option (\<lambda>(t, rest). (a # t, rest)) r"

fun string_body :: "jsstring \<Rightarrow> (jsstring \<times> jsstring) option" where
  "string_body [] = None"
| "string_body (c # cs) =
     (if c = 34 then Some ([], cs)
      else if c = 92 then
        (case cs of
           [] \<Rightarrow> None
         | e # es \<Rightarrow>
             if e = 117 then
               (case es of
                  a # b # c' # d # rest \<Rightarrow>
                    (case hex4 a b c' d of
                       Some u \<Rightarrow> cons_fst u (string_body rest)
                     | None \<Rightarrow> None)
                | _ \<Rightarrow> None)
             else (case unescape e of
                     Some u \<Rightarrow> cons_fst u (string_body es)
                   | None \<Rightarrow> None))
      else if c < 32 then None
      else cons_fst c (string_body cs))"

fun digits_value :: "nat \<Rightarrow> jsstring \<Rightarrow> nat" where
  "digits_value acc [] = acc"
| "digits_value acc (c # cs) = digits_value (acc * 10 + (c - 48)) cs"

definition parse_nat :: "jsstring \<Rightarrow> (nat \<times> jsstring) option" where
  "parse_nat text =
     (let ds = takeWhile is_digit text; rest = dropWhile is_digit text
      in if ds = [] then None
         else if hd ds = 48 \<and> length ds > 1 then None
         else if rest \<noteq> [] \<and> (hd rest = 46 \<or> hd rest = 101 \<or> hd rest = 69) then None
         else Some (digits_value 0 ds, rest))"

definition expect :: "jsstring \<Rightarrow> jsstring \<Rightarrow> jsval \<Rightarrow> (jsval \<times> jsstring) option" where
  "expect word text v =
     (if take (length word) text = word then Some (v, drop (length word) text) else None)"

text \<open>
  The parser takes fuel, one unit per nested call; \<open>parse_text\<close> gives it more than the
  text can use.
\<close>

fun parse_value :: "nat \<Rightarrow> jsstring \<Rightarrow> (jsval \<times> jsstring) option"
and parse_elements :: "nat \<Rightarrow> jsstring \<Rightarrow> (jsval list \<times> jsstring) option"
and parse_members :: "nat \<Rightarrow> jsstring \<Rightarrow> ((jsstring \<times> jsval) list \<times> jsstring) option" where
  "parse_value fuel text =
     (if fuel = 0 then None
      else
        (case skip_ws text of
           [] \<Rightarrow> None
         | c # cs \<Rightarrow>
             if c = 110 then expect (str ''ull'') cs JNull
             else if c = 116 then expect (str ''rue'') cs (JBool True)
             else if c = 102 then expect (str ''alse'') cs (JBool False)
             else if c = 34 then map_option (\<lambda>(t, rest). (JStr t, rest)) (string_body cs)
             else if c = 45 then map_option (\<lambda>(m, rest). (JNum (- int m), rest)) (parse_nat cs)
             else if is_digit c
             then map_option (\<lambda>(m, rest). (JNum (int m), rest)) (parse_nat (c # cs))
             else if c = 91 then
               (case skip_ws cs of
                  [] \<Rightarrow> None
                | d # ds \<Rightarrow>
                    if d = 93 then Some (JArr [], ds)
                    else map_option (\<lambda>(xs, rest). (JArr xs, rest))
                           (parse_elements (fuel - 1) (d # ds)))
             else if c = 123 then
               (case skip_ws cs of
                  [] \<Rightarrow> None
                | d # ds \<Rightarrow>
                    if d = 125 then Some (JObj [], ds)
                    else map_option (\<lambda>(kvs, rest). (JObj kvs, rest))
                           (parse_members (fuel - 1) (d # ds)))
             else None))"
| "parse_elements fuel text =
     (if fuel = 0 then None
      else
        (case parse_value (fuel - 1) text of
           None \<Rightarrow> None
         | Some (v, rest) \<Rightarrow>
             (case skip_ws rest of
                [] \<Rightarrow> None
              | c # cs \<Rightarrow> if c = 44 then cons_fst v (parse_elements (fuel - 1) cs)
                          else if c = 93 then Some ([v], cs)
                          else None)))"
| "parse_members fuel text =
     (if fuel = 0 then None
      else
        (case skip_ws text of
           [] \<Rightarrow> None
         | q # qs \<Rightarrow>
             if q \<noteq> 34 then None
             else (case string_body qs of
                     None \<Rightarrow> None
                   | Some (k, rest) \<Rightarrow>
                       (case skip_ws rest of
                          [] \<Rightarrow> None
                        | c # cs \<Rightarrow>
                            if c \<noteq> 58 then None
                            else (case parse_value (fuel - 1) cs of
                                    None \<Rightarrow> None
                                  | Some (v, rest') \<Rightarrow>
                                      (case skip_ws rest' of
                                         [] \<Rightarrow> None
                                       | e # es \<Rightarrow>
                                           if e = 44
                                           then cons_fst (k, v) (parse_members (fuel - 1) es)
                                           else if e = 125 then Some ([(k, v)], es)
                                           else None))))))"

declare parse_value.simps [simp del] parse_elements.simps [simp del] parse_members.simps [simp del]

definition parse_text :: "jsstring \<Rightarrow> js_error + jsval" where
  "parse_text text =
     (case parse_value (2 * length text + 2) text of
        Some (v, rest) \<Rightarrow> if skip_ws rest = [] then Inr v else Inl SyntaxError
      | None \<Rightarrow> Inl SyntaxError)"


definition b64_char :: "nat \<Rightarrow> nat" where
  "b64_char n =
     (if n < 26 then 65 + n else if n < 52 then 71 + n else if n < 62 then n - 4
      else if n = 62 then 43 else 47)"

definition b64_value :: "nat \<Rightarrow> nat option" where
  "b64_value c =
     (if 65 \<le> c \<and> c \<le> 90 then Some (c - 65)
      else if 97 \<le> c \<and> c \<le> 122 then Some (c - 71)
      else if 48 \<le> c \<and> c \<le> 57 then Some (c + 4)
      else if c = 43 then Some 62
      else if c = 47 then Some 63
      else None)"

fun b64_encode :: "nat list \<Rightarrow> nat list" where
  "b64_encode (a # b # c # rest) =
     b64_char (a div 4) # b64_char ((a mod 4) * 16 + b div 16)
       # b64_char ((b mod 16) * 4 + c div 64) # b64_char (c mod 64) # b64_encode rest"
| "b64_encode [a, b] =
     [b64_char (a div 4), b64_char ((a mod 4) * 16 + b div 16), b64_char ((b mod 16) * 4), 61]"
| "b64_encode [a] = [b64_char (a div 4), b64_char ((a mod 4) * 16), 61, 61]"
| "b64_encode [] = []"

definition sample_btoa :: "jsstring \<Rightarrow> js_error + jsstring" where
  "sample_btoa text =
     (if list_all (\<lambda>c. c < 256) text then Inr (b64_encode text) else Inl DOMException)"

fun b64_decode :: "nat list \<Rightarrow> nat list option" where
  "b64_decode (p # q # r # t # rest) =
     map_option (\<lambda>bytes. (p * 4 + q div 16) # ((q mod 16) * 16 + r div 4) # ((r mod 4) * 64 + t) # bytes)
       (b64_decode rest)"
| "b64_decode [p, q, r] = Some [p * 4 + q div 16, (q mod 16) * 16 + r div 4]"
| "b64_decode [p, q] = Some [p * 4 + q div 16]"
| "b64_decode [p] = None"
| "b64_decode [] = Some []"

fun all_values :: "nat option list \<Rightarrow> nat list option" where
  "all_values [] = Some []"
| "all_values (None # vs) = None"
| "all_values (Some v # vs) = map_option (\<lambda>ws. v # ws) (all_values vs)"

definition strip_padding :: "jsstring \<Rightarrow> jsstring" where
  "strip_padding text =
     (if length text mod 4 = 0 \<and> text \<noteq> [] \<and> last text = 61
      then (if length text \<ge> 2 \<and> last (butlast text) = 61 then butlast (butlast text)
            else butlast text)
      else text)"

definition sample_atob :: "jsstring \<Rightarrow> js_error + jsstring" where
  "sample_atob text =
     (case all_values (map b64_value (strip_padding (filter (\<lambda>c. \<not> (c = 32 \<or> c = 9 \<or> c = 10 \<or> c = 12 \<or> c = 13)) text))) of
        None \<Rightarrow> Inl DOMException
      | Some vs \<Rightarrow> (case b64_decode vs of None \<Rightarrow> Inl DOMException | Some bytes \<Rightarrow> Inr bytes))"

definition uri_unreserved :: "nat \<Rightarrow> bool" where
  "uri_unreserved c =
     ((65 \<le> c \<and> c \<le> 90) \<or> (97 \<le> c \<and> c \<le> 122) \<or> (48 \<le> c \<and> c \<le> 57)
      \<or> c = 45 \<or> c = 95 \<or> c = 46 \<or> c = 33 \<or> c = 126 \<or> c = 42 \<or> c = 39 \<or> c = 40 \<or> c = 41)"

definition upper_hex :: "nat \<Rightarrow> nat" where
  "upper_hex n = (if n < 10 then 48 + n else 55 + n)"

definition percent :: "nat \<Rightarrow> jsstring" where
  "percent b = [37, upper_hex (b div 16), upper_hex (b mod 16)]"

definition utf8_bytes :: "nat \<Rightarrow> nat list" where
  "utf8_bytes cp =
     (if cp < 128 then [cp]
      else if cp < 2048 then [192 + cp div 64, 128 + cp mod 64]
      else if cp < 65536 then [224 + cp div 4096, 128 + (cp div 64) mod 64, 128 + cp mod 64]
      else [240 + cp div 262144, 128 + (cp div 4096) mod 64, 128 + (cp div 64) mod 64,
            128 + cp mod 64])"

definition prepend :: "jsstring \<Rightarrow> js_error + jsstring \<Rightarrow> js_error + jsstring" where
  "prepend a r = and_then r (\<lambda>t. Inr (a @ t))"

fun sample_encodeURIComponent :: "jsstring \<Rightarrow> js_error + jsstring" where
  "sample_encodeURIComponent [] = Inr []"
| "sample_encodeURIComponent (c # cs) =
     (if uri_unreserved c then prepend [c] (sample_encodeURIComponent cs)
      else if 56320 \<le> c \<and> c \<le> 57343 then Inl URIError
      else if 55296 \<le> c \<and> c \<le> 56319 then
        (case cs of
           [] \<Rightarrow> Inl URIError
         | d # ds \<Rightarrow>
             if 56320 \<le> d \<and> d \<le> 57343
             then prepend (concat (map percent
                             (utf8_bytes (65536 + (c - 55296) * 1024 + (d - 56320)))))
                    (sample_encodeURIComponent ds)
             else Inl URIError)
      else prepend (concat (map percent (utf8_bytes c))) (sample_encodeURIComponent cs))"

datatype uri_token = Raw nat | Pct nat

fun uri_tokens :: "jsstring \<Rightarrow> uri_token list option" where
  "uri_tokens [] = Some []"
| "uri_tokens (c # cs) =
     (if c = 37 then
        (case cs of
           a # b # rest \<Rightarrow>
             (case (hex_value a, hex_value b) of
                (Some p, Some q) \<Rightarrow> map_option (\<lambda>ts. Pct (p * 16 + q) # ts) (uri_tokens rest)
              | _ \<Rightarrow> None)
         | _ \<Rightarrow> None)
      else map_option (\<lambda>ts. Raw c # ts) (uri_tokens cs))"

definition is_cont :: "nat \<Rightarrow> bool" where
  "is_cont b = (128 \<le> b \<and> b < 192)"

definition code_point_units :: "nat \<Rightarrow> nat list" where
  "code_point_units cp =
     (if cp < 65536 then [cp]
      else [55296 + (cp - 65536) div 1024, 56320 + (cp - 65536) mod 1024])"

definition units_then :: "nat list \<Rightarrow> jsstring option \<Rightarrow> jsstring option" where
  "units_then a r = map_option (\<lambda>t. a @ t) r"

fun utf8_decode :: "uri_token list \<Rightarrow> jsstring option" where
  "utf8_decode [] = Some []"
| "utf8_decode (Raw c # ts) = units_then [c] (utf8_decode ts)"
| "utf8_decode (Pct b # ts) =
     (if b < 128 then units_then [b] (utf8_decode ts)
      else if 194 \<le> b \<and> b < 224 then
        (case ts of
           Pct c1 # r \<Rightarrow>
             if is_cont c1 then units_then [(b - 192) * 64 + (c1 - 128)] (utf8_decode r)
             else None
         | _ \<Rightarrow> None)
      else if 224 \<le> b \<and> b < 240 then
        (case ts of
           Pct c1 # Pct c2 # r \<Rightarrow>
             (let cp = ((b - 224) * 64 + (c1 - 128)) * 64 + (c2 - 128)
              in if is_cont c1 \<and> is_cont c2 \<and> 2048 \<le> cp \<and> \<not> (55296 \<le> cp \<and> cp \<le> 57343)
                 then units_then [cp] (utf8_decode r)
                 else None)
         | _ \<Rightarrow> None)
      else if 240 \<le> b \<and> b < 245 then
        (case ts of
           Pct c1 # Pct c2 # Pct c3 # r \<Rightarrow>
             (let cp = (((b - 240) * 64 + (c1 - 128)) * 64 + (c2 - 128)) * 64 + (c3 - 128)
              in if is_cont c1 \<and> is_cont c2 \<and> is_cont c3 \<and> 65536 \<le> cp \<and> cp \<le> 1114111
                 then units_then (code_point_units cp) (utf8_decode r)
                 else None)
         | _ \<Rightarrow> None)
      else None)"

definition sample_decodeURIComponent :: "jsstring \<Rightarrow> js_error + jsstring" where
  "sample_decodeURIComponent text =
     (case uri_tokens text of
        None \<Rightarrow> Inl URIError
      | Some ts \<Rightarrow> (case utf8_decode ts of None \<Rightarrow> Inl URIError | Some t \<Rightarrow> Inr t))"

definition sample_to_number :: "jsval \<Rightarrow> js_error + jsnum" where
  "sample_to_number v =
     (case v of
        JStr text \<Rightarrow>
          if text \<noteq> [] \<and> list_all is_digit text then Inr (Fin (of_nat (digits_value 0 text)))
          else Inr NaN
      | _ \<Rightarrow> Inr NaN)"

definition sample_quota :: "store \<Rightarrow> jsstring \<Rightarrow> jsstring \<Rightarrow> bool" where
  "sample_quota st key text = (length text \<le> 5000000)"

definition sample_platform :: platform where
  "sample_platform =
     \<lparr>json_stringify = stringify_value, json_parse = parse_text,
      btoa = sample_btoa, atob = sample_atob,
      encodeURIComponent = sample_encodeURIComponent,
      decodeURIComponent = sample_decodeURIComponent,
      quota_accepts = sample_quota, to_number_object = sample_to_number\<rparr>"


text \<open>The object of the round-trip scenario, \<open>{a: 1, b: [1, 2, 3]}\<close>, and an empty store.\<close>

definition example_object :: jsval where
  "example_object = JObj [(str ''a'', JNum 1), (str ''b'', JArr [JNum 1, JNum 2, JNum 3])]"

definition empty_store :: store where
  "empty_store = Map.empty"

text \<open>Two calls of \<open>addEntry\<close>, the second without a category.\<close>

definition first_call :: call where
  "first_call =
     \<lparr>c_now = 1000, c_suffix = str ''k3x9'', c_userInput = JStr (str ''hello''),
      c_aiResponse = JStr (str ''hi''), c_category = JStr (str ''general'')\<rparr>"

definition second_call :: call where
  "second_call =
     \<lparr>c_now = 2000, c_suffix = str ''p7q2'', c_userInput = JStr (str ''cpu''),
      c_aiResponse = JStr (str ''ok''), c_category = JUndefined\<rparr>"


text \<open>
  A log at the cap, persisted at time 500: 99 entries \<open>7\<close> and, last, the oldest entry
  \<open>8\<close>. \<open>first_call\<close> (time 1000) reads it before it expires; \<open>late_call\<close> comes more
  than 30 days after it was written.
\<close>

definition full_log :: "jsval list" where
  "full_log = replicate 99 (JNum 7) @ [JNum 8]"

definition full_store :: store where
  "full_store =
     empty_store(CHAT_HISTORY \<mapsto> stringified sample_platform (storageData (JArr full_log) 500))"

definition late_call :: call where
  "late_call =
     \<lparr>c_now = 2592000501, c_suffix = str ''z1'', c_userInput = JStr (str ''ram''),
      c_aiResponse = JStr (str ''ok''), c_category = JStr (str ''system'')\<rparr>"


text \<open>
  A value large enough for the size-based transform: an array holding one string of 5001
  letters \<open>a\<close>. \<open>long_json\<close> is its JSON text, \<open>long_uri\<close> the percent-encoded text and
  \<open>long_base64\<close> the text that is stored. \<open>plain_unit\<close> holds of the code units that JSON
  writes into a string as they are.
\<close>

definition long_text :: jsstring where
  "long_text = replicate 5001 97"

definition long_array :: jsval where
  "long_array = JArr [JStr long_text]"

definition plain_unit :: "nat \<Rightarrow> bool" where
  "plain_unit c = (32 \<le> c \<and> c \<noteq> 34 \<and> c \<noteq> 92)"

definition long_json :: jsstring where
  "long_json = [91, 34] @ long_text @ [34, 93]"

definition long_uri :: jsstring where
  "long_uri = [37, 53, 66, 37, 50, 50] @ long_text @ [37, 50, 50, 37, 53, 68]"

definition long_base64 :: jsstring where
  "long_base64 = b64_encode long_uri"


section \<open>Theorems\<close>

subsection \<open>Strings and numbers\<close>

lemma str_inject [simp]: "str a = str b \<longleftrightarrow> a = b"
proof -
  have "inj (of_char :: char \<Rightarrow> nat)"
    by (rule inj_on_inverseI [where g = char_of]) simp
  then show ?thesis
    unfolding str_def by (simp add: inj_map_eq_map)
qed

lemma floor_rat_numeral_div [simp]:
  "\<lfloor>(numeral a :: rat) / numeral b\<rfloor> = numeral a div numeral b"
  using floor_divide_of_int_eq [of "numeral a" "numeral b", where ?'a = rat] by simp

lemma tenths_of_nat: "(of_nat (toFixed1_tenths v) :: rat) = of_int \<lfloor>10 * \<bar>v\<bar> + 1 / 2\<rfloor>"
proof -
  have "0 \<le> \<lfloor>10 * \<bar>v\<bar> + 1 / 2\<rfloor>" by simp
  then show ?thesis by (simp add: toFixed1_tenths_def)
qed

lemma floor_half_rat [simp]: "\<lfloor>1 / 2 :: rat\<rfloor> = 0"
  by (rule floor_unique) simp_all

lemma toFixed1_number_near: "\<bar>toFixed1_number v - v\<bar> \<le> 1 / 20"
proof -
  define f :: rat where "f = of_int \<lfloor>10 * \<bar>v\<bar> + 1 / 2\<rfloor>"
  have 1: "f \<le> 10 * \<bar>v\<bar> + 1 / 2"
    unfolding f_def by (rule of_int_floor_le)
  have 2: "10 * \<bar>v\<bar> + 1 / 2 < f + 1"
    unfolding f_def by (rule floor_correct [THEN conjunct2, simplified] | linarith)+
  have 3: "toFixed1_number v = (if v < 0 then - (f / 10) else f / 10)"
    by (simp add: toFixed1_number_def tenths_of_nat f_def)
  show ?thesis
  proof (cases "v < 0")
    case True
    with 1 2 show ?thesis unfolding 3 by (simp add: abs_if; linarith)
  next
    case False
    with 1 2 show ?thesis unfolding 3 by (simp add: abs_if; linarith)
  qed
qed

lemma toFixed1_number_ge:
  assumes "10 * m \<in> \<int>" "m \<le> v"
  shows "m \<le> toFixed1_number v"
proof -
  from assms(1) obtain a :: int where a: "10 * m = of_int a" by (auto elim: Ints_cases)
  show ?thesis
  proof (cases "v < 0")
    case False
    then have "of_int a \<le> 10 * \<bar>v\<bar> + 1 / 2" using assms(2) a by linarith
    then have "a \<le> \<lfloor>10 * \<bar>v\<bar> + 1 / 2\<rfloor>" by (simp add: le_floor_iff)
    then have "(of_int a :: rat) \<le> of_int \<lfloor>10 * \<bar>v\<bar> + 1 / 2\<rfloor>" by (simp only: of_int_le_iff)
    with False a show ?thesis by (simp add: toFixed1_number_def tenths_of_nat)
  next
    case True
    have "(of_int \<lfloor>10 * \<bar>v\<bar> + 1 / 2\<rfloor> :: rat) \<le> 10 * \<bar>v\<bar> + 1 / 2" by (rule of_int_floor_le)
    also have "\<dots> \<le> of_int (- a) + 1 / 2" using True assms(2) a by simp
    finally have "(of_int \<lfloor>10 * \<bar>v\<bar> + 1 / 2\<rfloor> :: rat) < of_int (- a) + 1" by linarith
    then have "\<lfloor>10 * \<bar>v\<bar> + 1 / 2\<rfloor> < - a + 1" by (metis of_int_1 of_int_add of_int_less_iff)
    then have "\<lfloor>10 * \<bar>v\<bar> + 1 / 2\<rfloor> \<le> - a" by simp
    then have "(of_int \<lfloor>10 * \<bar>v\<bar> + 1 / 2\<rfloor> :: rat) \<le> of_int (- a)" by (simp only: of_int_le_iff)
    with True a show ?thesis by (simp add: toFixed1_number_def tenths_of_nat)
  qed
qed

lemma toFixed1_number_minus: "toFixed1_number (- v) = - toFixed1_number v"
  by (auto simp add: toFixed1_number_def toFixed1_tenths_def)

lemma toFixed1_number_le:
  assumes "10 * M \<in> \<int>" "v \<le> M"
  shows "toFixed1_number v \<le> M"
proof -
  have "10 * (- M) \<in> \<int>" using assms(1) by (metis Ints_minus mult_minus_right)
  from toFixed1_number_ge [OF this, of "- v"] assms(2) show ?thesis
    by (simp add: toFixed1_number_minus)
qed

subsection \<open>Alert evaluator\<close>

text \<open>
  C7. \<open>checkAlerts\<close> is a function of the snapshot alone. It emits a warning titled
  "High CPU Usage Alert" iff CPU usage exceeds 85, a critical alert titled
  "High RAM Usage Alert" iff RAM usage exceeds 90, and a warning titled
  "High CPU Temperature" iff the CPU temperature exceeds 75, and nothing else. For the
  snapshot with CPU usage 90, CPU temperature 50 and RAM usage 50 it emits exactly one
  alert, the CPU usage warning.
\<close>

theorem checkAlerts_thresholds:
  "((\<exists>a \<in> set (checkAlerts s). title a = str ''High CPU Usage Alert'' \<and> alert_type a = Warning)
      \<longleftrightarrow> cpu_usage (cpu s) > 85)
   \<and> ((\<exists>a \<in> set (checkAlerts s). title a = str ''High RAM Usage Alert'' \<and> alert_type a = Critical)
      \<longleftrightarrow> ram_usage (ram s) > 90)
   \<and> ((\<exists>a \<in> set (checkAlerts s). title a = str ''High CPU Temperature'' \<and> alert_type a = Warning)
      \<longleftrightarrow> cpu_temperature (cpu s) > 75)
   \<and> (\<forall>a \<in> set (checkAlerts s).
        title a \<in> {str ''High CPU Usage Alert'', str ''High RAM Usage Alert'',
                    str ''High CPU Temperature''})
   \<and> length (checkAlerts s) =
        (if cpu_usage (cpu s) > 85 then 1 else 0) + (if ram_usage (ram s) > 90 then 1 else 0)
        + (if cpu_temperature (cpu s) > 75 then 1 else 0)
   \<and> map (\<lambda>a. (title a, alert_type a)) (checkAlerts scenario_status)
        = [(str ''High CPU Usage Alert'', Warning)]"
  by (simp add: checkAlerts_def showAlert_call_def scenario_status_def)

theorem checkAlerts_thresholds_witness:
  "checkAlerts scenario_status
     = [\<lparr>title = str ''High CPU Usage Alert'', message = str ''CPU usage reached 90.0%'',
         alert_type = Warning\<rparr>]
   \<and> (\<exists>a \<in> set (checkAlerts scenario_status).
         title a = str ''High CPU Usage Alert'' \<and> alert_type a = Warning)
   \<and> \<not> (\<exists>a \<in> set (checkAlerts scenario_status). alert_type a = Critical)"
proof -
  have tenths: "toFixed1_tenths 90 = 900"
    by (simp add: toFixed1_tenths_def)
  have msg: "toFixed1 90 = str ''90.0''"
    by (simp add: toFixed1_def tenths show_nat.simps str_def)
  have run: "checkAlerts scenario_status
     = [\<lparr>title = str ''High CPU Usage Alert'', message = str ''CPU usage reached 90.0%'',
         alert_type = Warning\<rparr>]"
    by (simp add: checkAlerts_def showAlert_call_def scenario_status_def msg)
      (simp add: str_def)
  from checkAlerts_thresholds [of scenario_status] run show ?thesis
    by (simp add: scenario_status_def)
qed

subsection \<open>Operation simulator\<close>

lemma step_loop_eq:
  "step_loop operation clock i lg
     = lg @ map (log_step operation clock) [i ..< length (steps operation)]"
proof (induction operation clock i lg rule: step_loop.induct)
  case (1 operation clock i lg)
  show ?case
  proof (cases "i < length (steps operation)")
    case True
    then show ?thesis
      using "1.IH" by (subst step_loop.simps) (simp add: upt_conv_Cons)
  next
    case False
    then show ?thesis
      by (subst step_loop.simps) simp
  qed
qed

lemma js_get_constructor: "js_get operations (str ''constructor'') = Inherited"
  by (simp add: js_get_def operations_def object_prototype_names_def)

text \<open>
  For every type that is not the name of a property inherited from \<open>Object.prototype\<close> the
  promise resolves, the log has one entry per configured step (the baseline list for an
  unknown type), entry \<open>i\<close> has progress \<open>(i + 1) / stepCount * 100\<close>, the last entry is
  \<open>completed\<close> and the others are \<open>in_progress\<close>.
\<close>

lemma simulateSystemOperation_log:
  assumes "operationType \<notin> set object_prototype_names"
  shows "\<exists>r. simulateSystemOperation rnd clock operationType = Inr r
     \<and> length (log r) = length (configured_steps operationType)
     \<and> (\<forall>i < length (log r).
          progress (log r ! i)
            = of_nat (i + 1) / of_nat (length (configured_steps operationType)) * 100
          \<and> status (log r ! i)
            = (if i = length (log r) - 1 then str ''completed'' else str ''in_progress''))"
  using assms
  by (auto simp add: simulateSystemOperation_def js_get_def configured_steps_def
      final_result_def step_loop_eq log_step_def split: option.splits)

text \<open>
  C6. For every operation type, \<open>simulateSystemOperation\<close> resolves with a log of the
  configured step count, the baseline list for an unknown type. The code does not do so
  for the type \<open>constructor\<close>: it is no configured type, the lookup finds the inherited
  property instead of falling back to the baseline, and the promise rejects with a
  TypeError.
\<close>

theorem simulateSystemOperation_constructor_rejects:
  "simulateSystemOperation half_random noon_clock (str ''constructor'') = Inl TypeError
   \<and> map_of operations (str ''constructor'') = None"
  by (simp add: simulateSystemOperation_def js_get_constructor) (simp add: operations_def)

subsection \<open>Filtering by time range\<close>

text \<open>
  C10. \<open>filterDataByTimeRange\<close> returns a subsequence of its input: the order is kept and
  no point is added or changed. It keeps exactly the points whose time lies within the
  lookback window of the tag, that is not earlier than \<open>now - window\<close> (every occurrence
  of such a point, and no point without a time). The windows are 60 s, 300 s, 3600 s and
  86400 s for \<open>1m\<close>, \<open>5m\<close>, \<open>1h\<close> and \<open>1d\<close>, and every other tag behaves as \<open>1m\<close>.
\<close>

theorem filterDataByTimeRange_window:
  "subseq (filterDataByTimeRange now data rng) data
   \<and> (\<forall>p t. pointTime p = Some t
         \<longrightarrow> count_list (filterDataByTimeRange now data rng) p
             = (if now - timeLimit rng \<le> t then count_list data p else 0))
   \<and> (\<forall>p. pointTime p = None \<longrightarrow> p \<notin> set (filterDataByTimeRange now data rng))
   \<and> timeLimit (str ''1m'') = 60000 \<and> timeLimit (str ''5m'') = 300000
   \<and> timeLimit (str ''1h'') = 3600000 \<and> timeLimit (str ''1d'') = 86400000
   \<and> (rng \<notin> {str ''1m'', str ''5m'', str ''1h'', str ''1d''}
        \<longrightarrow> filterDataByTimeRange now data rng = filterDataByTimeRange now data (str ''1m''))"
proof -
  have "subseq (filter P data) data" for P :: "point \<Rightarrow> bool"
    by simp
  moreover have "count_list (filter P data) p = (if P p then count_list data p else 0)"
    for P :: "point \<Rightarrow> bool" and p
    by (induction data) auto
  moreover have "in_range now limit p \<longleftrightarrow> now - limit \<le> t" if "pointTime p = Some t"
    for limit p t
    using that by (auto simp add: in_range_def)
  moreover have "\<not> in_range now limit p" if "pointTime p = None" for limit p
    using that by (simp add: in_range_def)
  ultimately show ?thesis
    by (simp add: filterDataByTimeRange_def timeLimit_def)
qed

theorem filterDataByTimeRange_window_witness:
  "filterDataByTimeRange 100000 [\<lparr>x = NumX 1000, y = 50\<rparr>, \<lparr>x = DateX (Some 99000), y = 60\<rparr>,
       \<lparr>x = DateX None, y = 70\<rparr>, \<lparr>x = NumX 40000, y = 80\<rparr>] (str ''2w'')
     = [\<lparr>x = DateX (Some 99000), y = 60\<rparr>, \<lparr>x = NumX 40000, y = 80\<rparr>]
   \<and> str ''2w'' \<notin> {str ''1m'', str ''5m'', str ''1h'', str ''1d''}
   \<and> filterDataByTimeRange 100000 [\<lparr>x = NumX 1000, y = 50\<rparr>, \<lparr>x = DateX (Some 99000), y = 60\<rparr>,
       \<lparr>x = DateX None, y = 70\<rparr>, \<lparr>x = NumX 40000, y = 80\<rparr>] (str ''1m'')
     = [\<lparr>x = DateX (Some 99000), y = 60\<rparr>, \<lparr>x = NumX 40000, y = 80\<rparr>]"
  using filterDataByTimeRange_window [of 100000
      "[\<lparr>x = NumX 1000, y = 50\<rparr>, \<lparr>x = DateX (Some 99000), y = 60\<rparr>,
        \<lparr>x = DateX None, y = 70\<rparr>, \<lparr>x = NumX 40000, y = 80\<rparr>]" "str ''2w''"]
  by (simp add: filterDataByTimeRange_def timeLimit_def in_range_def pointTime_def)

subsection \<open>Generating a series\<close>

lemma chart_loop_eq:
  "chart_loop now rnd sine mn mx type i k data
     = data @ map (\<lambda>j. chart_point now rnd sine mn mx type (i - int j) (k + j)) [0 ..< nat (i + 1)]"
proof (induction now rnd sine mn mx type i k data rule: chart_loop.induct)
  case (1 now rnd sine mn mx type i k data)
  show ?case
  proof (cases "i \<ge> 0")
    case True
    then have n: "nat (i + 1) = Suc (nat i)" by simp
    have m: "map (\<lambda>j. chart_point now rnd sine mn mx type (i - int j) (k + j)) [0 ..< Suc (nat i)]
       = chart_point now rnd sine mn mx type i k
         # map (\<lambda>j. chart_point now rnd sine mn mx type (i - 1 - int j) (k + 1 + j)) [0 ..< nat i]"
      by (simp add: upt_conv_Cons map_Suc_upt [symmetric] diff_diff_eq del: upt_Suc)
    show ?thesis
      using True "1.IH" by (subst chart_loop.simps) (simp add: n m del: upt_Suc)
  next
    case False
    then show ?thesis by (subst chart_loop.simps) simp
  qed
qed

lemma generateChartData_eq:
  "generateChartData now rnd sine count mn mx type
     = map (\<lambda>j. chart_point now rnd sine mn mx type (count - 1 - int j) j) [0 ..< nat count]"
  by (simp add: generateChartData_def chart_loop_eq)

lemma chart_value_clamped: "mn \<le> mx \<Longrightarrow> mn \<le> chart_value sine mn mx type i r \<and> chart_value sine mn mx type i r \<le> mx"
  by (simp add: chart_value_def Let_def)

text \<open>
  What \<open>generateChartData\<close> guarantees. For every kind, every count and every pair
  \<open>min \<le> max\<close>, the series has \<open>count\<close> points (none for a count below 1), the
  timestamps ascend with a spacing of exactly 1000 ms and the last one is \<open>now\<close>. Each
  value is the clamped value rounded to one decimal: it is at most 0.05 outside
  \<open>[min, max]\<close>, and it lies within \<open>[min, max]\<close> when \<open>min\<close> and \<open>max\<close> are themselves
  numbers with at most one decimal.
\<close>

lemma generateChartData_series:
  assumes "mn \<le> mx"
  shows "length (generateChartData now rnd sine count mn mx type) = nat count
   \<and> (\<forall>j < nat count.
         pointTime (generateChartData now rnd sine count mn mx type ! j)
           = Some (now - (count - 1 - int j) * 1000)
         \<and> mn - 1 / 20 \<le> y (generateChartData now rnd sine count mn mx type ! j)
         \<and> y (generateChartData now rnd sine count mn mx type ! j) \<le> mx + 1 / 20
         \<and> (10 * mn \<in> \<int> \<and> 10 * mx \<in> \<int>
              \<longrightarrow> mn \<le> y (generateChartData now rnd sine count mn mx type ! j)
                  \<and> y (generateChartData now rnd sine count mn mx type ! j) \<le> mx))
   \<and> (\<forall>j. Suc j < nat count
         \<longrightarrow> pointTime (generateChartData now rnd sine count mn mx type ! Suc j)
             = map_option (\<lambda>t. t + 1000)
                 (pointTime (generateChartData now rnd sine count mn mx type ! j)))
   \<and> (0 < count \<longrightarrow> pointTime (last (generateChartData now rnd sine count mn mx type)) = Some now)"
proof (intro conjI allI impI)
  let ?d = "generateChartData now rnd sine count mn mx type"
  show len: "length ?d = nat count"
    by (simp add: generateChartData_eq)
  {
    fix j assume j: "j < nat count"
    then have nth: "?d ! j = chart_point now rnd sine mn mx type (count - 1 - int j) j"
      by (simp add: generateChartData_eq)
    let ?v = "chart_value sine mn mx type (count - 1 - int j) (rnd j)"
    have yv: "y (?d ! j) = toFixed1_number ?v"
      by (simp add: nth chart_point_def)
    have cl: "mn \<le> ?v" "?v \<le> mx"
      using chart_value_clamped [OF assms] by simp_all
    have near: "\<bar>toFixed1_number ?v - ?v\<bar> \<le> 1 / 20"
      by (rule toFixed1_number_near)
    show "pointTime (?d ! j) = Some (now - (count - 1 - int j) * 1000)"
      by (simp add: nth chart_point_def pointTime_def)
    show "mn - 1 / 20 \<le> y (?d ! j)"
      using cl near unfolding yv by linarith
    show "y (?d ! j) \<le> mx + 1 / 20"
      using cl near unfolding yv by linarith
    {
      assume ints: "10 * mn \<in> \<int> \<and> 10 * mx \<in> \<int>"
      show "mn \<le> y (?d ! j)"
        unfolding yv using ints cl by (simp add: toFixed1_number_ge)
      show "y (?d ! j) \<le> mx"
        unfolding yv using ints cl by (simp add: toFixed1_number_le)
    }
  }
  {
    fix j assume j: "Suc j < nat count"
    then show "pointTime (?d ! Suc j) = map_option (\<lambda>t. t + 1000) (pointTime (?d ! j))"
      by (simp add: generateChartData_eq chart_point_def pointTime_def algebra_simps)
  }
  {
    assume c: "0 < count"
    then have ne: "?d \<noteq> []" using len by auto
    have "last ?d = ?d ! (nat count - 1)"
      using ne len by (simp add: last_conv_nth)
    also have "\<dots> = chart_point now rnd sine mn mx type (count - 1 - int (nat count - 1)) (nat count - 1)"
      using c by (simp add: generateChartData_eq)
    finally show "pointTime (last ?d) = Some now"
      using c by (simp add: chart_point_def pointTime_def)
  }
qed

lemma generateChartData_series_example:
  "(20 :: rat) \<le> 90
   \<and> generateChartData 10000 half_random flat_sine 3 20 90 (str ''cpu'')
       = [\<lparr>x = DateX (Some 8000), y = 55\<rparr>, \<lparr>x = DateX (Some 9000), y = 55\<rparr>,
          \<lparr>x = DateX (Some 10000), y = 55\<rparr>]
   \<and> length (generateChartData 10000 half_random flat_sine 3 20 90 (str ''cpu'')) = 3"
proof -
  have le: "(20 :: rat) \<le> 90" by simp
  have run: "generateChartData 10000 half_random flat_sine 3 20 90 (str ''cpu'')
       = [\<lparr>x = DateX (Some 8000), y = 55\<rparr>, \<lparr>x = DateX (Some 9000), y = 55\<rparr>,
          \<lparr>x = DateX (Some 10000), y = 55\<rparr>]"
    by (simp add: generateChartData_eq chart_point_def chart_value_def Let_def
        toFixed1_number_def toFixed1_tenths_def half_random_def flat_sine_def upt_rec)
  from generateChartData_series [OF le, of 10000 half_random flat_sine 3 "str ''cpu''"] run le
  show ?thesis by simp
qed

text \<open>
  C5. For every kind, count and pair \<open>min \<le> max\<close>, every value of the series lies within
  \<open>[min, max]\<close>, and the timestamps ascend by exactly 1000 ms, newest last. The code keeps
  the timestamps so, but not the values: it clamps to \<open>[min, max]\<close> and rounds to one
  decimal afterwards. With \<open>min = max = 0.25\<close> the clamped value 0.25 is rounded to 0.3,
  above \<open>max\<close>.
\<close>

theorem generateChartData_out_of_range:
  "(1 / 4 :: rat) \<le> 1 / 4
   \<and> y (hd (generateChartData 0 half_random flat_sine 1 (1 / 4) (1 / 4) (str ''cpu''))) = 3 / 10
   \<and> \<not> y (hd (generateChartData 0 half_random flat_sine 1 (1 / 4) (1 / 4) (str ''cpu''))) \<le> 1 / 4"
  by (simp add: generateChartData_eq chart_point_def chart_value_def Let_def
      toFixed1_number_def toFixed1_tenths_def)

subsection \<open>Choosing the intent\<close>

lemmas keyword_eval =
  js_includes_def kw_behine_def kw_sorat_def kw_kond_def kw_fayl_def kw_pak_def kw_hazf_def
  kw_shabake_def kw_internet_def kw_ettesal_def str_def sublist_code

lemma lower_slow_query:
  "toLowerCase slow_query = str ''my system is slow and i need to optimize''"
  by (simp add: toLowerCase_def slow_query_def lower_units_def str_def)

lemma lower_hello: "toLowerCase (str ''hello'') = str ''hello''"
  by (simp add: toLowerCase_def lower_units_def str_def)

lemma lower_kond_query: "toLowerCase kond_query = kond_query"
  by (simp add: toLowerCase_def kond_query_def lower_units_def)

lemma intent_slow_query: "processQuery_intent slow_query = str ''general''"
  unfolding processQuery_intent_def Let_def lower_slow_query
  by (simp add: keyword_eval)

lemma category_slow_query: "categorizeCommand slow_query = str ''system''"
  unfolding categorizeCommand_def lower_slow_query
  by (simp add: categories_def keyword_eval)

lemma intent_hello: "processQuery_intent (str ''hello'') = str ''general''"
  unfolding processQuery_intent_def Let_def lower_hello
  by (simp add: keyword_eval)

lemma category_hello: "categorizeCommand (str ''hello'') = str ''general''"
  unfolding categorizeCommand_def lower_hello
  by (simp add: categories_def keyword_eval)

lemma includes_kond_query: "js_includes (toLowerCase kond_query) kw_kond"
  unfolding lower_kond_query
  by (simp add: keyword_eval kond_query_def)

lemma intent_kond_query: "processQuery_intent kond_query = str ''system_optimization''"
  unfolding processQuery_intent_def Let_def lower_kond_query
  by (simp add: keyword_eval kond_query_def)

text \<open>
  C2 as stated fails: neither classifier tags the English query
  "my system is slow and I need to optimize" as \<open>system_optimization\<close>.
\<close>

theorem classify_slow_query_not_optimization:
  "processQuery_intent slow_query \<noteq> str ''system_optimization''
   \<and> categorizeCommand slow_query \<noteq> str ''system_optimization''"
  by (simp add: intent_slow_query category_slow_query)

lemma hello_no_keyword:
  "\<not> js_includes (toLowerCase (str ''hello'')) kw_behine"
  "\<not> js_includes (toLowerCase (str ''hello'')) kw_sorat"
  "\<not> js_includes (toLowerCase (str ''hello'')) kw_kond"
  "\<not> js_includes (toLowerCase (str ''hello'')) kw_fayl"
  "\<not> js_includes (toLowerCase (str ''hello'')) kw_pak"
  "\<not> js_includes (toLowerCase (str ''hello'')) kw_hazf"
  "\<not> js_includes (toLowerCase (str ''hello'')) kw_shabake"
  "\<not> js_includes (toLowerCase (str ''hello'')) kw_internet"
  "\<not> js_includes (toLowerCase (str ''hello'')) kw_ettesal"
  unfolding lower_hello by (simp_all add: keyword_eval)

text \<open>
  C2 as amended. \<open>processQuery\<close> lowercases the query and tests three keyword sets in
  order. It chooses \<open>system_optimization\<close> exactly when the query contains one of the
  Persian keywords for "optimal", "speed" and "slow", whatever file or network keywords
  it also contains; \<open>file_management\<close> exactly when it contains none of those and one of
  the file keywords; \<open>network\<close> exactly when it contains none of those six and one of the
  network keywords; and \<open>general\<close> exactly when it contains none of the nine keywords.
  The English query "my system is slow and I need to optimize" contains none of them and
  gets the intent \<open>general\<close>; \<open>categorizeCommand\<close> files it under \<open>system\<close>, whose
  keywords are tested before those of \<open>optimization\<close>. "hello" is \<open>general\<close> for both.
\<close>

theorem classify_intent:
  "(processQuery_intent q = str ''system_optimization''
      \<longleftrightarrow> js_includes (toLowerCase q) kw_behine \<or> js_includes (toLowerCase q) kw_sorat
          \<or> js_includes (toLowerCase q) kw_kond)
   \<and> (processQuery_intent q = str ''file_management''
      \<longleftrightarrow> \<not> (js_includes (toLowerCase q) kw_behine \<or> js_includes (toLowerCase q) kw_sorat
              \<or> js_includes (toLowerCase q) kw_kond)
          \<and> (js_includes (toLowerCase q) kw_fayl \<or> js_includes (toLowerCase q) kw_pak
              \<or> js_includes (toLowerCase q) kw_hazf))
   \<and> (processQuery_intent q = str ''network''
      \<longleftrightarrow> \<not> (js_includes (toLowerCase q) kw_behine \<or> js_includes (toLowerCase q) kw_sorat
              \<or> js_includes (toLowerCase q) kw_kond)
          \<and> \<not> (js_includes (toLowerCase q) kw_fayl \<or> js_includes (toLowerCase q) kw_pak
              \<or> js_includes (toLowerCase q) kw_hazf)
          \<and> (js_includes (toLowerCase q) kw_shabake \<or> js_includes (toLowerCase q) kw_internet
              \<or> js_includes (toLowerCase q) kw_ettesal))
   \<and> (processQuery_intent q = str ''general''
      \<longleftrightarrow> \<not> (js_includes (toLowerCase q) kw_behine \<or> js_includes (toLowerCase q) kw_sorat
              \<or> js_includes (toLowerCase q) kw_kond
              \<or> js_includes (toLowerCase q) kw_fayl \<or> js_includes (toLowerCase q) kw_pak
              \<or> js_includes (toLowerCase q) kw_hazf
              \<or> js_includes (toLowerCase q) kw_shabake
              \<or> js_includes (toLowerCase q) kw_internet
              \<or> js_includes (toLowerCase q) kw_ettesal))
   \<and> processQuery_intent slow_query = str ''general''
   \<and> categorizeCommand slow_query = str ''system''
   \<and> processQuery_intent (str ''hello'') = str ''general''
   \<and> categorizeCommand (str ''hello'') = str ''general''"
  by (simp add: intent_slow_query category_slow_query intent_hello category_hello)
    (simp add: processQuery_intent_def Let_def)

theorem classify_intent_witness:
  "processQuery_intent kond_query = str ''system_optimization''
   \<and> js_includes (toLowerCase kond_query) kw_kond
   \<and> \<not> js_includes (toLowerCase (str ''hello'')) kw_behine
   \<and> \<not> js_includes (toLowerCase (str ''hello'')) kw_ettesal
   \<and> processQuery_intent (str ''hello'') = str ''general''
   \<and> processQuery_intent (str ''hello'') \<noteq> str ''network''"
  using classify_intent [of kond_query] classify_intent [of "str ''hello''"]
    includes_kond_query hello_no_keyword
  by simp

subsection \<open>Profile registry\<close>

lemma map_of_deactivate_all:
  "map_of (deactivate_all ps) k = map_option (\<lambda>p. p\<lparr>active := False\<rparr>) (map_of ps k)"
  by (induction ps) (auto simp: deactivate_all_def)

lemma active_ids_set_active:
  "distinct (map fst ps) \<Longrightarrow> k \<in> fst ` set ps \<Longrightarrow>
   map fst (filter (\<lambda>(key, p). active p) (set_active k (deactivate_all ps))) = [k]"
proof (induction ps)
  case Nil then show ?case by simp
next
  case (Cons a ps)
  have none: "k \<notin> fst ` set qs \<Longrightarrow> filter (\<lambda>(key, p). active p) (set_active k (deactivate_all qs)) = []" for qs
    by (induction qs) (auto simp: set_active_def deactivate_all_def)
  show ?case
  proof (cases "fst a = k")
    case True
    with Cons.prems have "k \<notin> fst ` set ps" by auto
    from none [OF this] True show ?thesis
      by (cases a) (auto simp: set_active_def deactivate_all_def)
  next
    case False
    with Cons show ?thesis
      by (cases a) (auto simp: set_active_def deactivate_all_def)
  qed
qed

lemma deactivate_all_idem: "deactivate_all (deactivate_all ps) = deactivate_all ps"
  by (induction ps) (auto simp add: deactivate_all_def)

lemma deactivate_all_set_active:
  "deactivate_all (set_active k ps) = deactivate_all ps"
  by (induction ps) (auto simp add: deactivate_all_def set_active_def)

lemma deactivate_all_inactive:
  "i < length ps \<Longrightarrow> \<not> active (snd (deactivate_all ps ! i))"
  by (simp add: deactivate_all_def case_prod_unfold)

text \<open>
  C1 as stated fails. For the unknown id \<open>turbo\<close> the call does not return false (it
  returns \<open>undefined\<close>) and the registry is changed (no profile is active afterwards); for
  the known id \<open>gaming\<close> the call does not return true.
\<close>

theorem activateProfile_unknown_id:
  "fst (activateProfile (str ''turbo'') initial_state) \<noteq> JBool False
   \<and> snd (activateProfile (str ''turbo'') initial_state) \<noteq> initial_state
   \<and> active_ids initial_state = [str ''default'']
   \<and> active_ids (snd (activateProfile (str ''turbo'') initial_state)) = []
   \<and> fst (activateProfile (str ''gaming'') initial_state) \<noteq> JBool True"
  by (simp add: activateProfile_def js_get_def initial_state_def initial_profiles_def
      deactivate_all_def object_prototype_names_def active_ids_def)

text \<open>
  C1 as amended. \<open>activateProfile\<close> returns no value. For an id that is a key of the
  registry, afterwards exactly one profile has \<open>active = true\<close>, it is the requested one,
  it is the selected profile of the user settings, and every profile keeps its key, its
  place and all its fields other than the active flag. For an id that is neither a key of
  the registry nor an inherited property name, no profile that was inactive becomes
  active, every profile keeps its key, its place and all its fields other than the active
  flag, and the user settings are unchanged.
\<close>

theorem activateProfile_exclusive:
  "fst (activateProfile profileId s) = JUndefined
   \<and> (distinct (map fst (profiles s)) \<and> profileId \<in> fst ` set (profiles s)
       \<longrightarrow> active_ids (snd (activateProfile profileId s)) = [profileId]
           \<and> selectedProfile (userSettings (snd (activateProfile profileId s))) = profileId
           \<and> deactivate_all (profiles (snd (activateProfile profileId s)))
               = deactivate_all (profiles s))
   \<and> (profileId \<notin> fst ` set (profiles s) \<and> profileId \<notin> set object_prototype_names
       \<longrightarrow> (\<forall>i < length (profiles s).
              active (snd (profiles (snd (activateProfile profileId s)) ! i))
              \<longrightarrow> active (snd (profiles s ! i)))
           \<and> deactivate_all (profiles (snd (activateProfile profileId s)))
               = deactivate_all (profiles s)
           \<and> profileId \<notin> set (active_ids (snd (activateProfile profileId s)))
           \<and> userSettings (snd (activateProfile profileId s)) = userSettings s
           \<and> map fst (profiles (snd (activateProfile profileId s))) = map fst (profiles s))"
proof (intro conjI impI)
  show "fst (activateProfile profileId s) = JUndefined"
    by (simp add: activateProfile_def Let_def split: lookup.splits)
next
  assume a: "distinct (map fst (profiles s)) \<and> profileId \<in> fst ` set (profiles s)"
  then obtain p where p: "map_of (profiles s) profileId = Some p"
    by (metis map_of_eq_None_iff not_Some_eq)
  then have g: "js_get (deactivate_all (profiles s)) profileId = Own (p\<lparr>active := False\<rparr>)"
    by (simp add: js_get_def map_of_deactivate_all)
  show "active_ids (snd (activateProfile profileId s)) = [profileId]"
    using a by (simp add: activateProfile_def Let_def g active_ids_def active_ids_set_active)
  show "selectedProfile (userSettings (snd (activateProfile profileId s))) = profileId"
    by (simp add: activateProfile_def Let_def g)
  show "deactivate_all (profiles (snd (activateProfile profileId s)))
      = deactivate_all (profiles s)"
    by (simp add: activateProfile_def Let_def g deactivate_all_set_active deactivate_all_idem)
next
  assume a: "profileId \<notin> fst ` set (profiles s) \<and> profileId \<notin> set object_prototype_names"
  then have "map_of (profiles s) profileId = None"
    by (simp add: map_of_eq_None_iff)
  then have g: "js_get (deactivate_all (profiles s)) profileId = Missing"
    using a by (simp add: js_get_def map_of_deactivate_all)
  have st: "snd (activateProfile profileId s) = s\<lparr>profiles := deactivate_all (profiles s)\<rparr>"
    by (simp add: activateProfile_def Let_def g)
  show "\<forall>i < length (profiles s).
      active (snd (profiles (snd (activateProfile profileId s)) ! i))
      \<longrightarrow> active (snd (profiles s ! i))"
    unfolding st by (simp add: deactivate_all_inactive)
  show "deactivate_all (profiles (snd (activateProfile profileId s)))
      = deactivate_all (profiles s)"
    unfolding st by (simp add: deactivate_all_idem)
  show "profileId \<notin> set (active_ids (snd (activateProfile profileId s)))"
    using a unfolding st by (auto simp add: active_ids_def deactivate_all_def)
  show "userSettings (snd (activateProfile profileId s)) = userSettings s"
    unfolding st by simp
  show "map fst (profiles (snd (activateProfile profileId s))) = map fst (profiles s)"
    unfolding st by (simp add: deactivate_all_def case_prod_unfold comp_def)
qed

theorem activateProfile_exclusive_witness:
  "distinct (map fst (profiles initial_state))
   \<and> str ''gaming'' \<in> fst ` set (profiles initial_state)
   \<and> active_ids (snd (activateProfile (str ''gaming'') initial_state)) = [str ''gaming'']
   \<and> selectedProfile (userSettings (snd (activateProfile (str ''gaming'') initial_state)))
       = str ''gaming''
   \<and> deactivate_all (profiles (snd (activateProfile (str ''gaming'') initial_state)))
       = deactivate_all initial_profiles
   \<and> str ''turbo'' \<notin> fst ` set (profiles initial_state)
   \<and> str ''turbo'' \<notin> set object_prototype_names
   \<and> deactivate_all (profiles (snd (activateProfile (str ''turbo'') initial_state)))
       = deactivate_all initial_profiles
   \<and> set (active_ids (snd (activateProfile (str ''turbo'') initial_state)))
       \<subseteq> set (active_ids initial_state)
   \<and> userSettings (snd (activateProfile (str ''turbo'') initial_state))
       = userSettings initial_state"
proof -
  have d: "distinct (map fst (profiles initial_state))"
    by (simp add: initial_state_def initial_profiles_def)
  have k: "str ''gaming'' \<in> fst ` set (profiles initial_state)"
    by (simp add: initial_state_def initial_profiles_def)
  have u: "str ''turbo'' \<notin> fst ` set (profiles initial_state)"
    by (simp add: initial_state_def initial_profiles_def)
  have v: "str ''turbo'' \<notin> set object_prototype_names"
    by (simp add: object_prototype_names_def)
  have p: "profiles initial_state = initial_profiles"
    by (simp add: initial_state_def)
  have e: "set (active_ids (snd (activateProfile (str ''turbo'') initial_state)))
       \<subseteq> set (active_ids initial_state)"
    by (simp add: activateProfile_def js_get_def initial_state_def initial_profiles_def
        deactivate_all_def object_prototype_names_def active_ids_def)
  from activateProfile_exclusive [of "str ''gaming''" initial_state]
    activateProfile_exclusive [of "str ''turbo''" initial_state] d k u v p e
  show ?thesis by simp
qed

subsection \<open>Storage adapter\<close>

lemma and_then_Inr [simp]: "and_then (Inr v) f = f v"
  by (simp add: and_then_def)

lemma and_then_Inl [simp]: "and_then (Inl e) f = Inl e"
  by (simp add: and_then_def)

lemma get_field_storageData [simp]:
  "get_field (storageData d t) (str ''timestamp'') = Inr (JNum t)"
  "get_field (storageData d t) (str ''value'') = Inr d"
  by (simp_all add: get_field_def storageData_def)

lemma get_field_ttl_item [simp]:
  "get_field (ttl_item v t ttl) (str ''timestamp'') = Inr (JNum t)"
  "get_field (ttl_item v t ttl) (str ''value'') = Inr v"
  "get_field (ttl_item v t ttl) (str ''ttl'') = Inr ttl"
  by (simp_all add: get_field_def ttl_item_def)

lemma elapsed_gt [simp]:
  "num_gt (num_minus t1 (Fin (of_int t0))) (Fin (of_int limit)) \<longleftrightarrow> t1 - t0 > limit"
proof -
  have "(of_int t1 - of_int t0 > (of_int limit :: rat)) \<longleftrightarrow> t1 - t0 > limit"
    by (metis of_int_diff of_int_less_iff)
  then show ?thesis by (simp add: num_gt_def num_minus_def)
qed

lemma codec_roundtrip_stringified:
  assumes "codec_roundtrip P v"
  shows "json_stringify P v = Inr (stringified P v)" and "stringified P v \<noteq> []"
    and "json_parse P (stringified P v) = Inr v"
  using assms by (auto simp add: codec_roundtrip_def stringified_def split: sum.splits)

lemma dataToSave_plain [simp]: "dataToSave P data False = Inr data"
  by (simp add: dataToSave_def)

lemma saveToStorage_stored:
  assumes "dataToSave P data c = Inr d"
    and "json_stringify P (storageData d t0) = Inr stored"
    and "quota_accepts P st key stored"
  shows "saveToStorage P t0 st key data c = Inr (True, st(key \<mapsto> stored))"
  using assms by (simp add: saveToStorage_def saveToStorage_try_def setItem_def)

lemma loadFromStorage_stored:
  assumes "st key = Some stored" and "stored \<noteq> []"
    and "json_parse P stored = Inr (storageData d t0)"
  shows "loadFromStorage P t1 st key
     = Inr (if t1 - t0 > EXPIRY_TIME then (JNull, removeItem st key) else (decompress P d, st))"
  using assms by (simp add: loadFromStorage_def loadFromStorage_try_def to_number_def)

lemma setLocalStorage_stored:
  assumes "json_stringify P (ttl_item v t0 ttl) = Inr stored"
    and "quota_accepts P st key stored"
  shows "setLocalStorage P t0 st key v ttl = Inr (st(key \<mapsto> stored))"
  using assms by (simp add: setLocalStorage_def setItem_def)

lemma getLocalStorage_stored:
  assumes "st key = Some stored" and "stored \<noteq> []"
    and "json_parse P stored = Inr (ttl_item v t0 ttl)"
  shows "ttl = JNum t \<Longrightarrow> t \<noteq> 0 \<Longrightarrow> getLocalStorage P t1 st key
     = Inr (if t1 - t0 > t then (JNull, removeItem st key) else (v, st))"
    and "ttl = JNum 0 \<or> ttl = JNull \<Longrightarrow> getLocalStorage P t1 st key = Inr (v, st)"
  using assms
  by (auto simp add: getLocalStorage_def getLocalStorage_try_def no_item_def truthy_def
      gt_value_def to_number_def)

text \<open>
  Storing through a faithful codec and reading at \<open>t1\<close>: \<open>loadFromStorage\<close> answers
  \<open>null\<close> once more than 30 days have passed and the stored data (decoded if it looks
  compressed) until then.
\<close>

lemma save_then_load_stored:
  assumes "dataToSave P data c = Inr d"
    and "codec_roundtrip P (storageData d t0)"
    and "quota_accepts P st key (stringified P (storageData d t0))"
  shows "save_then_load P st key data c t0 t1
          = Inr (if t1 - t0 > EXPIRY_TIME then JNull else decompress P d)"
proof -
  let ?stored = "stringified P (storageData d t0)"
  note p = codec_roundtrip_stringified [OF assms(2)]
  have s: "saveToStorage P t0 st key data c = Inr (True, st(key \<mapsto> ?stored))"
    using assms(1) p(1) assms(3) by (rule saveToStorage_stored)
  have k: "(st(key \<mapsto> ?stored)) key = Some ?stored"
    by simp
  have l: "loadFromStorage P t1 (st(key \<mapsto> ?stored)) key
     = Inr (if t1 - t0 > EXPIRY_TIME then (JNull, removeItem (st(key \<mapsto> ?stored)) key)
            else (decompress P d, st(key \<mapsto> ?stored)))"
    by (rule loadFromStorage_stored
        [where st = "st(key \<mapsto> ?stored)" and key = key, OF k p(2) p(3)])
  show ?thesis
    by (simp add: save_then_load_def s l)
qed

lemma set_then_get_stored:
  assumes "codec_roundtrip P (ttl_item v t0 ttl)"
    and "quota_accepts P st key (stringified P (ttl_item v t0 ttl))"
  shows "ttl = JNum t \<Longrightarrow> t \<noteq> 0 \<Longrightarrow>
      set_then_get P st key v ttl t0 t1 = Inr (if t1 - t0 > t then JNull else v)"
    and "ttl = JNum 0 \<or> ttl = JNull \<Longrightarrow> set_then_get P st key v ttl t0 t1 = Inr v"
proof -
  let ?stored = "stringified P (ttl_item v t0 ttl)"
  note p = codec_roundtrip_stringified [OF assms(1)]
  have s: "setLocalStorage P t0 st key v ttl = Inr (st(key \<mapsto> ?stored))"
    using p(1) assms(2) by (rule setLocalStorage_stored)
  have k: "(st(key \<mapsto> ?stored)) key = Some ?stored"
    by simp
  note g = getLocalStorage_stored [where st = "st(key \<mapsto> ?stored)" and key = key, OF k p(2) p(3)]
  {
    assume n: "ttl = JNum t" "t \<noteq> 0"
    have "getLocalStorage P t1 (st(key \<mapsto> ?stored)) key
      = Inr (if t1 - t0 > t then (JNull, removeItem (st(key \<mapsto> ?stored)) key)
             else (v, st(key \<mapsto> ?stored)))"
      by (rule g(1) [OF n])
    then show "set_then_get P st key v ttl t0 t1 = Inr (if t1 - t0 > t then JNull else v)"
      unfolding set_then_get_def s by simp
  }
  {
    assume n: "ttl = JNum 0 \<or> ttl = JNull"
    have "getLocalStorage P t1 (st(key \<mapsto> ?stored)) key = Inr (v, st(key \<mapsto> ?stored))"
      by (rule g(2) [OF n])
    then show "set_then_get P st key v ttl t0 t1 = Inr v"
      unfolding set_then_get_def s by simp
  }
qed

lemma decompress_structured: "structured data \<Longrightarrow> decompress P data = data"
  by (cases data) (simp_all add: structured_def decompress_def)

lemma decompress_array [simp]: "decompress P (JArr xs) = JArr xs"
  by (simp add: decompress_def)

text \<open>Running the sample platform on concrete values.\<close>

lemmas sample_eval =
  sample_platform_def codec_roundtrip_def stringified_def storageData_def ttl_item_def
  example_object_def show_int_def show_nat.simps quote_def quote_unit_def
  parse_value.simps parse_elements.simps parse_members.simps
  parse_text_def skip_ws_def is_ws_def is_digit_def expect_def parse_nat_def cons_fst_def
  unescape_def hex4_def hex_value_def str_def sample_quota_def

lemma sample_envelope:
  "codec_roundtrip sample_platform (storageData example_object 1000)"
  "quota_accepts sample_platform empty_store (str ''k'')
     (stringified sample_platform (storageData example_object 1000))"
  "stringified sample_platform (storageData example_object 1000)
     = str ''{\"value\":{\"a\":1,\"b\":[1,2,3]},\"timestamp\":1000,\"version\":\"1.0\"}''"
  by (simp_all add: sample_eval)

lemma sample_item_ttl:
  "codec_roundtrip sample_platform (ttl_item example_object 1000 (JNum 5000))"
  "quota_accepts sample_platform empty_store (str ''k'')
     (stringified sample_platform (ttl_item example_object 1000 (JNum 5000)))"
  by (simp_all add: sample_eval)

lemma sample_item_no_ttl:
  "codec_roundtrip sample_platform (ttl_item example_object 1000 JNull)"
  "quota_accepts sample_platform empty_store (str ''k'')
     (stringified sample_platform (ttl_item example_object 1000 JNull))"
  by (simp_all add: sample_eval)

lemma sample_item_ttl_zero:
  "codec_roundtrip sample_platform (ttl_item example_object 1000 (JNum 0))"
  "quota_accepts sample_platform empty_store (str ''k'')
     (stringified sample_platform (ttl_item example_object 1000 (JNum 0)))"
  by (simp_all add: sample_eval)

lemma structured_example: "structured example_object"
  by (simp add: example_object_def structured_def)



text \<open>
  C3 as stated fails. \<open>saveToStorage\<close> has no ttl parameter (its third parameter is the
  compression flag, false for the argument 0): the value is still there one millisecond
  later. \<open>Utils.setLocalStorage\<close> without a ttl never expires: the value is still there
  after 31 days. With the ttl 0 the value is still there one millisecond later as well.
\<close>

theorem storage_ttl_zero_kept:
  "save_then_load sample_platform empty_store (str ''k'') example_object False 1000 1001
     = Inr example_object
   \<and> set_then_get sample_platform empty_store (str ''k'') example_object JNull 1000 2678401000
     = Inr example_object
   \<and> set_then_get sample_platform empty_store (str ''k'') example_object (JNum 0) 1000 1001
     = Inr example_object
   \<and> example_object \<noteq> JNull"
proof -
  have a: "save_then_load sample_platform empty_store (str ''k'') example_object False 1000 1001
     = Inr example_object"
    using save_then_load_stored [OF dataToSave_plain sample_envelope(1,2), of 1001]
    by (simp add: EXPIRY_TIME_def decompress_structured structured_example)
  have b: "set_then_get sample_platform empty_store (str ''k'') example_object JNull 1000 2678401000
     = Inr example_object"
    using set_then_get_stored(2) [OF sample_item_no_ttl] by simp
  have c: "set_then_get sample_platform empty_store (str ''k'') example_object (JNum 0) 1000 1001
     = Inr example_object"
    using set_then_get_stored(2) [OF sample_item_ttl_zero] by simp
  from a b c show ?thesis by (simp add: example_object_def)
qed

text \<open>
  C3 as amended. \<open>saveToStorage\<close> and \<open>loadFromStorage\<close> have no ttl of their own: an item
  stored through a faithful codec is returned while at most 30 days have passed since it
  was stored, and is absent once more than 30 days have passed. \<open>Utils.setLocalStorage\<close>
  and \<open>Utils.getLocalStorage\<close> have a ttl and no default: an item stored with a positive
  ttl is returned while at most ttl milliseconds have passed and is absent afterwards; an
  item stored without a ttl is returned at any later time.
\<close>

theorem storage_expiry:
  "(dataToSave P data c = Inr d \<and> codec_roundtrip P (storageData d t0)
      \<and> quota_accepts P st key (stringified P (storageData d t0))
    \<longrightarrow> save_then_load P st key data c t0 t1
          = Inr (if t1 - t0 > EXPIRY_TIME then JNull else decompress P d))
   \<and> EXPIRY_TIME = 2592000000
   \<and> (codec_roundtrip P (ttl_item v t0 ttl)
      \<and> quota_accepts P st key (stringified P (ttl_item v t0 ttl))
    \<longrightarrow> (\<forall>t. ttl = JNum t \<and> t > 0
           \<longrightarrow> set_then_get P st key v ttl t0 t1 = Inr (if t1 - t0 > t then JNull else v))
        \<and> (ttl = JNull \<longrightarrow> set_then_get P st key v ttl t0 t1 = Inr v))"
proof (intro conjI impI allI)
  assume "dataToSave P data c = Inr d \<and> codec_roundtrip P (storageData d t0)
      \<and> quota_accepts P st key (stringified P (storageData d t0))"
  then show "save_then_load P st key data c t0 t1
          = Inr (if t1 - t0 > EXPIRY_TIME then JNull else decompress P d)"
    by (simp add: save_then_load_stored)
next
  show "EXPIRY_TIME = 2592000000"
    by (simp add: EXPIRY_TIME_def)
next
  fix t
  assume a: "codec_roundtrip P (ttl_item v t0 ttl)
      \<and> quota_accepts P st key (stringified P (ttl_item v t0 ttl))"
    and t: "ttl = JNum t \<and> t > 0"
  from a have r: "codec_roundtrip P (ttl_item v t0 ttl)"
    and q: "quota_accepts P st key (stringified P (ttl_item v t0 ttl))"
    by simp_all
  from t have n: "ttl = JNum t" "t \<noteq> 0" by simp_all
  show "set_then_get P st key v ttl t0 t1 = Inr (if t1 - t0 > t then JNull else v)"
    by (rule set_then_get_stored(1) [OF r q n])
next
  assume a: "codec_roundtrip P (ttl_item v t0 ttl)
      \<and> quota_accepts P st key (stringified P (ttl_item v t0 ttl))"
    and t: "ttl = JNull"
  from a have r: "codec_roundtrip P (ttl_item v t0 ttl)"
    and q: "quota_accepts P st key (stringified P (ttl_item v t0 ttl))"
    by simp_all
  from t have n: "ttl = JNum 0 \<or> ttl = JNull" by simp
  show "set_then_get P st key v ttl t0 t1 = Inr v"
    by (rule set_then_get_stored(2) [OF r q n])
qed

theorem storage_expiry_witness:
  "dataToSave sample_platform example_object False = Inr example_object
   \<and> codec_roundtrip sample_platform (storageData example_object 1000)
   \<and> codec_roundtrip sample_platform (ttl_item example_object 1000 (JNum 5000))
   \<and> codec_roundtrip sample_platform (ttl_item example_object 1000 JNull)
   \<and> save_then_load sample_platform empty_store (str ''k'') example_object False 1000 2592001001
       = Inr JNull
   \<and> save_then_load sample_platform empty_store (str ''k'') example_object False 1000 2592001000
       = Inr example_object
   \<and> set_then_get sample_platform empty_store (str ''k'') example_object (JNum 5000) 1000 6001
       = Inr JNull
   \<and> set_then_get sample_platform empty_store (str ''k'') example_object (JNum 5000) 1000 6000
       = Inr example_object
   \<and> set_then_get sample_platform empty_store (str ''k'') example_object JNull 1000 2592001001
       = Inr example_object"
proof -
  note d = decompress_structured [OF structured_example]
  from storage_expiry [of sample_platform example_object False example_object 1000
      empty_store "str ''k''" 2592001001 example_object JNull]
    sample_envelope(1,2) sample_item_no_ttl
  have a: "save_then_load sample_platform empty_store (str ''k'') example_object False 1000
       2592001001 = Inr JNull"
    and e: "set_then_get sample_platform empty_store (str ''k'') example_object JNull 1000
       2592001001 = Inr example_object"
    by simp_all
  from storage_expiry [of sample_platform example_object False example_object 1000
      empty_store "str ''k''" 2592001000 example_object JNull]
    sample_envelope(1,2)
  have b: "save_then_load sample_platform empty_store (str ''k'') example_object False 1000
       2592001000 = Inr example_object"
    by (simp add: d)
  from storage_expiry [of sample_platform example_object False example_object 1000
      empty_store "str ''k''" 6001 example_object "JNum 5000"]
    sample_item_ttl
  have c: "set_then_get sample_platform empty_store (str ''k'') example_object (JNum 5000) 1000
       6001 = Inr JNull"
    by simp
  from storage_expiry [of sample_platform example_object False example_object 1000
      empty_store "str ''k''" 6000 example_object "JNum 5000"]
    sample_item_ttl
  have f: "set_then_get sample_platform empty_store (str ''k'') example_object (JNum 5000) 1000
       6000 = Inr example_object"
    by simp
  from a b c f e sample_envelope(1) sample_item_ttl(1) sample_item_no_ttl(1)
  show ?thesis by simp
qed

text \<open>The sample platform on the long value: each step of the transform and its inverse.\<close>

lemma b64_value_char: "n < 64 \<Longrightarrow> b64_value (b64_char n) = Some n"
  unfolding b64_value_def b64_char_def by (auto; arith)

lemma b64_char_shape: "n < 64 \<Longrightarrow> base64_unit (b64_char n) \<and> b64_char n \<noteq> 61"
  unfolding base64_unit_def b64_char_def by (auto; arith)

lemma b64_group_bounds:
  fixes a b c :: nat
  shows "a < 256 \<Longrightarrow> a div 4 < 64"
    and "b < 256 \<Longrightarrow> (a mod 4) * 16 + b div 16 < 64"
    and "c < 256 \<Longrightarrow> (b mod 16) * 4 + c div 64 < 64"
    and "c mod 64 < 64"
proof -
  show "a < 256 \<Longrightarrow> a div 4 < 64" by simp
  have "a mod 4 < 4" by simp
  then have "a mod 4 \<le> 3" by simp
  moreover have "b < 256 \<Longrightarrow> b div 16 < 16" by simp
  ultimately show "b < 256 \<Longrightarrow> (a mod 4) * 16 + b div 16 < 64" by linarith
  have "b mod 16 < 16" by simp
  then have "b mod 16 \<le> 15" by simp
  moreover have "c < 256 \<Longrightarrow> c div 64 < 4" by simp
  ultimately show "c < 256 \<Longrightarrow> (b mod 16) * 4 + c div 64 < 64" by linarith
  show "c mod 64 < 64" by simp
qed

lemma b64_group_first:
  fixes a b :: nat
  assumes "b < 256"
  shows "(a div 4) * 4 + ((a mod 4) * 16 + b div 16) div 16 = a"
proof -
  have "b div 16 < 16" using assms by simp
  then have "((a mod 4) * 16 + b div 16) div 16 = a mod 4" by simp
  then show ?thesis by simp
qed

lemma b64_group_second:
  fixes a b c :: nat
  assumes "b < 256" "c < 256"
  shows "(((a mod 4) * 16 + b div 16) mod 16) * 16 + ((b mod 16) * 4 + c div 64) div 4 = b"
proof -
  have "b div 16 < 16" using assms by simp
  then have 1: "((a mod 4) * 16 + b div 16) mod 16 = b div 16" by simp
  have "c div 64 < 4" using assms by simp
  then have 2: "((b mod 16) * 4 + c div 64) div 4 = b mod 16" by simp
  show ?thesis unfolding 1 2 by simp
qed

lemma b64_group_third:
  fixes b c :: nat
  assumes "c < 256"
  shows "(((b mod 16) * 4 + c div 64) mod 4) * 64 + c mod 64 = c"
proof -
  have "c div 64 < 4" using assms by simp
  then have 1: "((b mod 16) * 4 + c div 64) mod 4 = c div 64" by simp
  show ?thesis unfolding 1 by simp
qed

lemma b64_encode_decode:
  assumes "list_all (\<lambda>c. c < 256) u" and "length u mod 3 = 0"
  shows "\<exists>vs. all_values (map b64_value (b64_encode u)) = Some vs \<and> b64_decode vs = Some u"
    and "list_all base64_unit (b64_encode u)" and "61 \<notin> set (b64_encode u)"
    and "length (b64_encode u) = 4 * (length u div 3)"
  using assms
proof (induction u rule: b64_encode.induct)
  case (1 a b c rest)
  {
    case 1
    then have abc: "a < 256" "b < 256" "c < 256" and r: "list_all (\<lambda>c. c < 256) rest"
      and l: "length rest mod 3 = 0"
      by simp_all
    from "1.IH"(1) [OF r l] obtain vs where
      vs: "all_values (map b64_value (b64_encode rest)) = Some vs" "b64_decode vs = Some rest"
      by blast
    note g = b64_group_bounds(1) [OF abc(1)] b64_group_bounds(2) [OF abc(2), of a]
      b64_group_bounds(3) [OF abc(3), of b] b64_group_bounds(4) [of c]
    show ?case
      using vs b64_group_first [OF abc(2), of a] b64_group_second [OF abc(2,3), of a]
        b64_group_third [OF abc(3), of b]
      by (simp add: b64_value_char [OF g(1)] b64_value_char [OF g(2)] b64_value_char [OF g(3)]
          b64_value_char [OF g(4)])
  next
    case 2
    then have abc: "a < 256" "b < 256" "c < 256" and r: "list_all (\<lambda>c. c < 256) rest"
      and l: "length rest mod 3 = 0"
      by simp_all
    note g = b64_group_bounds(1) [OF abc(1)] b64_group_bounds(2) [OF abc(2), of a]
      b64_group_bounds(3) [OF abc(3), of b] b64_group_bounds(4) [of c]
    show ?case
      using "1.IH"(2) [OF r l] b64_char_shape [OF g(1)] b64_char_shape [OF g(2)]
        b64_char_shape [OF g(3)] b64_char_shape [OF g(4)]
      by simp
  next
    case 3
    then have abc: "a < 256" "b < 256" "c < 256" and r: "list_all (\<lambda>c. c < 256) rest"
      and l: "length rest mod 3 = 0"
      by simp_all
    note g = b64_group_bounds(1) [OF abc(1)] b64_group_bounds(2) [OF abc(2), of a]
      b64_group_bounds(3) [OF abc(3), of b] b64_group_bounds(4) [of c]
    show ?case
      using "1.IH"(3) [OF r l] b64_char_shape [OF g(1)] b64_char_shape [OF g(2)]
        b64_char_shape [OF g(3)] b64_char_shape [OF g(4)]
      by simp
  next
    case 4
    then have r: "list_all (\<lambda>c. c < 256) rest" and l: "length rest mod 3 = 0"
      by simp_all
    show ?case
      using "1.IH"(4) [OF r l] l by simp
  }
next
  case (2 a b)
  { case 1 then show ?case by simp
  next case 2 then show ?case by simp
  next case 3 then show ?case by simp
  next case 4 then show ?case by simp }
next
  case (3 a)
  { case 1 then show ?case by simp
  next case 2 then show ?case by simp
  next case 3 then show ?case by simp
  next case 4 then show ?case by simp }
next
  case 4
  { case 1 show ?case by simp
  next case 2 show ?case by simp
  next case 3 show ?case by simp
  next case 4 show ?case by simp }
qed

lemma quote_plain: "list_all plain_unit t \<Longrightarrow> quote t = 34 # t @ [34]"
proof -
  have "list_all plain_unit t \<Longrightarrow> concat (map quote_unit t) = t"
    by (induction t) (auto simp add: plain_unit_def quote_unit_def)
  then show "list_all plain_unit t \<Longrightarrow> quote t = 34 # t @ [34]"
    by (simp add: quote_def)
qed

lemma string_body_plain:
  "list_all plain_unit t \<Longrightarrow> string_body (t @ 34 # rest) = Some (t, rest)"
  by (induction t) (auto simp add: plain_unit_def cons_fst_def)

lemma base64_plain: "list_all base64_unit t \<Longrightarrow> list_all plain_unit t"
  by (induction t) (auto simp add: base64_unit_def plain_unit_def)

lemma long_text_facts:
  "length long_text = 5001" "list_all plain_unit long_text"
  "list_all uri_unreserved long_text" "list_all (\<lambda>c. c < 256) long_text"
  by (simp_all add: long_text_def plain_unit_def uri_unreserved_def list_all_length)

lemma encode_unreserved:
  "list_all uri_unreserved t \<Longrightarrow>
   sample_encodeURIComponent (t @ rest) = prepend t (sample_encodeURIComponent rest)"
proof (induction t)
  case Nil
  show ?case by (cases "sample_encodeURIComponent rest") (simp_all add: prepend_def and_then_def)
next
  case (Cons c t)
  then show ?case
    by (cases "sample_encodeURIComponent rest") (simp_all add: prepend_def and_then_def)
qed

lemma tokens_unreserved:
  "list_all uri_unreserved t \<Longrightarrow>
   uri_tokens (t @ rest) = map_option (\<lambda>ts. map Raw t @ ts) (uri_tokens rest)"
proof (induction t)
  case Nil
  show ?case by (simp add: option.map_ident)
next
  case (Cons c t)
  then have "c \<noteq> 37" by (auto simp add: uri_unreserved_def)
  with Cons show ?case
    by (simp add: option.map_comp comp_def)
qed

lemma decode_raw:
  "utf8_decode (map Raw t @ ts) = units_then t (utf8_decode ts)"
  by (induction t) (auto simp add: units_then_def option.map_comp comp_def option.map_ident)

lemma long_stringify: "json_stringify sample_platform long_array = Inr long_json"
  by (simp add: sample_platform_def long_array_def long_json_def quote_plain long_text_facts)

lemma reserved_units: "\<not> uri_unreserved 34" "\<not> uri_unreserved 93" "\<not> uri_unreserved 91"
  by (simp_all add: uri_unreserved_def)

lemma percent_units:
  "concat (map percent (utf8_bytes 34)) = [37, 50, 50]"
  "concat (map percent (utf8_bytes 93)) = [37, 53, 68]"
  "concat (map percent (utf8_bytes 91)) = [37, 53, 66]"
  by (simp_all add: percent_def utf8_bytes_def upper_hex_def)

lemma long_encode: "encodeURIComponent sample_platform long_json = Inr long_uri"
proof -
  have tail: "sample_encodeURIComponent [34, 93] = Inr [37, 50, 50, 37, 53, 68]"
    by (simp add: reserved_units percent_units prepend_def)
  have "sample_encodeURIComponent (long_text @ [34, 93])
      = Inr (long_text @ [37, 50, 50, 37, 53, 68])"
    by (simp add: encode_unreserved long_text_facts reserved_units percent_units prepend_def)
  then show ?thesis
    by (simp add: sample_platform_def long_json_def long_uri_def reserved_units percent_units
        prepend_def)
qed

lemma long_decode: "decodeURIComponent sample_platform long_uri = Inr long_json"
proof -
  have tail: "uri_tokens [37, 50, 50, 37, 53, 68] = Some [Pct 34, Pct 93]"
    by (simp add: hex_value_def)
  have middle: "uri_tokens (long_text @ [37, 50, 50, 37, 53, 68])
      = Some (map Raw long_text @ [Pct 34, Pct 93])"
    by (simp add: tokens_unreserved long_text_facts hex_value_def)
  have whole: "uri_tokens long_uri
      = Some (Pct 91 # Pct 34 # map Raw long_text @ [Pct 34, Pct 93])"
    unfolding long_uri_def by (simp add: middle hex_value_def)
  have d: "utf8_decode (map Raw long_text @ [Pct 34, Pct 93]) = Some (long_text @ [34, 93])"
    by (simp add: decode_raw units_then_def)
  show ?thesis
    by (simp add: sample_platform_def sample_decodeURIComponent_def whole d units_then_def
        long_json_def)
qed

lemma long_uri_facts:
  "list_all (\<lambda>c. c < 256) long_uri" "length long_uri mod 3 = 0" "length long_uri = 5013"
  by (simp_all add: long_uri_def long_text_facts)

lemma long_json_length: "length long_json = 5005"
  by (simp add: long_json_def long_text_facts)

lemma long_btoa: "btoa sample_platform long_uri = Inr long_base64"
  by (simp add: sample_platform_def sample_btoa_def long_uri_facts long_base64_def)

lemma long_base64_facts:
  "list_all base64_unit long_base64" "61 \<notin> set long_base64" "length long_base64 = 6684"
  "long_base64 \<noteq> []" "list_all plain_unit long_base64"
proof -
  note e = b64_encode_decode [OF long_uri_facts(1,2)]
  show "list_all base64_unit long_base64" "61 \<notin> set long_base64"
    using e(2,3) by (simp_all add: long_base64_def)
  show l: "length long_base64 = 6684"
    using e(4) by (simp add: long_base64_def long_uri_facts)
  from l show "long_base64 \<noteq> []" by auto
  show "list_all plain_unit long_base64"
    using e(2) by (simp add: long_base64_def base64_plain)
qed

lemma not_space_base64:
  "list_all base64_unit t \<Longrightarrow> \<forall>c \<in> set t. c \<noteq> 32 \<and> c \<noteq> 9 \<and> c \<noteq> 10 \<and> c \<noteq> 12 \<and> c \<noteq> 13"
  by (auto simp add: list_all_iff base64_unit_def)

lemma strip_padding_none: "61 \<notin> set t \<Longrightarrow> strip_padding t = t"
proof (cases "t = []")
  case True
  then show ?thesis by (simp add: strip_padding_def)
next
  case False
  assume "61 \<notin> set t"
  moreover have "last t \<in> set t" using False by simp
  ultimately have "last t \<noteq> 61" by auto
  then show ?thesis by (simp add: strip_padding_def)
qed

lemma long_atob: "atob sample_platform long_base64 = Inr long_uri"
proof -
  from b64_encode_decode(1) [OF long_uri_facts(1,2)] obtain vs where
    vs: "all_values (map b64_value long_base64) = Some vs" "b64_decode vs = Some long_uri"
    by (auto simp add: long_base64_def)
  have f: "filter (\<lambda>c. c \<noteq> 32 \<and> c \<noteq> 9 \<and> c \<noteq> 10 \<and> c \<noteq> 12 \<and> c \<noteq> 13) long_base64 = long_base64"
    using not_space_base64 [OF long_base64_facts(1)] by (simp add: filter_id_conv)
  show ?thesis
    unfolding sample_platform_def sample_atob_def by (simp add: f strip_padding_none long_base64_facts vs)
qed

lemma long_parse: "json_parse sample_platform long_json = Inr long_array"
  by (simp add: sample_platform_def parse_text_def long_json_length)
    (simp add: long_json_def long_array_def parse_value.simps parse_elements.simps skip_ws_def
      is_ws_def is_digit_def string_body_plain long_text_facts)

lemma long_dataToSave: "dataToSave sample_platform long_array True = Inr (JStr long_base64)"
  using long_stringify long_encode long_btoa
  by (simp add: dataToSave_def typeof_object_def long_array_def long_json_length)

lemma long_transform:
  "transform_applied sample_platform long_array True"
  "transform_roundtrip sample_platform long_array"
  using long_stringify long_encode long_btoa long_atob long_decode long_parse
  by (simp_all add: transform_applied_def transform_roundtrip_def typeof_object_def
      long_json_length long_base64_facts base64_shape_def)
    (simp add: long_array_def)

lemma plain_literals:
  "list_all plain_unit (str ''value'')" "list_all plain_unit (str ''timestamp'')"
  "list_all plain_unit (str ''version'')" "list_all plain_unit (str ''1.0'')"
  by (simp_all add: str_def plain_unit_def)

lemma long_envelope_text:
  "json_stringify sample_platform (storageData (JStr long_base64) 1000)
     = Inr (str ''{\"value\":\"'' @ long_base64 @ str ''\",\"timestamp\":1000,\"version\":\"1.0\"}'')"
  by (simp add: sample_platform_def storageData_def quote_plain plain_literals long_base64_facts
      show_int_def show_nat.simps)
    (simp add: str_def)

lemma long_envelope_parse:
  "json_parse sample_platform
     (str ''{\"value\":\"'' @ long_base64 @ str ''\",\"timestamp\":1000,\"version\":\"1.0\"}'')
     = Inr (storageData (JStr long_base64) 1000)"
  by (simp add: sample_platform_def parse_text_def long_base64_facts str_def)
    (simp add: parse_value.simps parse_elements.simps parse_members.simps skip_ws_def
      is_ws_def is_digit_def expect_def parse_nat_def cons_fst_def string_body_plain
      long_base64_facts storageData_def str_def)

lemma long_envelope:
  "codec_roundtrip sample_platform (storageData (JStr long_base64) 1000)"
  "quota_accepts sample_platform empty_store (str ''k'')
     (stringified sample_platform (storageData (JStr long_base64) 1000))"
  by (simp_all add: codec_roundtrip_def stringified_def long_envelope_text long_envelope_parse)
    (simp_all add: sample_platform_def sample_quota_def long_base64_facts str_def)


lemma long_roundtrip_check:
  "structured long_array" "(1000 :: int) - 1000 \<le> EXPIRY_TIME"
  by (simp_all add: structured_def long_array_def EXPIRY_TIME_def)

text \<open>
  C8. For a structured value (an object or an array) that passes the platform's codec,
  \<open>saveToStorage\<close> followed by \<open>loadFromStorage\<close>, at once or within 30 days, returns a
  value equal to the original, also when the size-based transform was applied and the
  platform undoes it. The returned value is built from the stored text; that it is a new
  object and not the same reference is outside what values can express.
\<close>

theorem storage_roundtrip:
  assumes "structured data"
    and "dataToSave P data c = Inr d"
    and "codec_roundtrip P (storageData d t0)"
    and "quota_accepts P st key (stringified P (storageData d t0))"
    and "transform_applied P data c \<longrightarrow> transform_roundtrip P data"
    and "t1 - t0 \<le> EXPIRY_TIME"
  shows "save_then_load P st key data c t0 t1 = Inr data"
proof -
  have r: "save_then_load P st key data c t0 t1 = Inr (decompress P d)"
    using assms by (simp add: save_then_load_stored)
  have "decompress P d = data"
  proof (cases "transform_applied P data c")
    case False
    with assms(2) have "d = data"
      by (auto simp add: dataToSave_def transform_applied_def split: if_splits sum.splits)
    with assms(1) show ?thesis by (simp add: decompress_structured)
  next
    case True
    with assms(5) have tr: "transform_roundtrip P data" by simp
    then obtain jsonStr u b where
      j: "json_stringify P data = Inr jsonStr" and u: "encodeURIComponent P jsonStr = Inr u"
      and b: "btoa P u = Inr b" and rest: "base64_shape b" "length jsonStr \<le> length b"
        "atob P b = Inr u" "decodeURIComponent P u = Inr jsonStr" "json_parse P jsonStr = Inr data"
      by (auto simp add: transform_roundtrip_def split: sum.splits)
    from True j have len: "length jsonStr > 5000" and cc: "c" "typeof_object data"
      by (simp_all add: transform_applied_def)
    from assms(2) j u b len cc have "d = JStr b"
      by (simp add: dataToSave_def)
    with rest len show ?thesis by (simp add: decompress_def)
  qed
  with r show ?thesis by simp
qed

theorem storage_roundtrip_witness:
  "structured example_object
   \<and> dataToSave sample_platform example_object False = Inr example_object
   \<and> codec_roundtrip sample_platform (storageData example_object 1000)
   \<and> stringified sample_platform (storageData example_object 1000)
       = str ''{\"value\":{\"a\":1,\"b\":[1,2,3]},\"timestamp\":1000,\"version\":\"1.0\"}''
   \<and> \<not> transform_applied sample_platform example_object False
   \<and> save_then_load sample_platform empty_store (str ''k'') example_object False 1000 1000
       = Inr example_object
   \<and> structured long_array
   \<and> dataToSave sample_platform long_array True = Inr (JStr long_base64)
   \<and> codec_roundtrip sample_platform (storageData (JStr long_base64) 1000)
   \<and> transform_applied sample_platform long_array True
   \<and> transform_roundtrip sample_platform long_array
   \<and> save_then_load sample_platform empty_store (str ''k'') long_array True 1000 1000
       = Inr long_array"
proof -
  have n: "\<not> transform_applied sample_platform example_object False"
    by (simp add: transform_applied_def)
  from storage_roundtrip [OF structured_example dataToSave_plain sample_envelope(1,2) _
      long_roundtrip_check(2)] n
  have small: "save_then_load sample_platform empty_store (str ''k'') example_object False
       1000 1000 = Inr example_object"
    by simp
  from storage_roundtrip [OF long_roundtrip_check(1) long_dataToSave long_envelope _
      long_roundtrip_check(2)] long_transform
  have long: "save_then_load sample_platform empty_store (str ''k'') long_array True 1000 1000
       = Inr long_array"
    by simp
  from small long n structured_example sample_envelope long_roundtrip_check(1) long_dataToSave
    long_envelope(1) long_transform
  show ?thesis by simp
qed

subsection \<open>Chat history manager\<close>

lemma unshift_capped_take:
  "length xs \<le> 100 \<Longrightarrow> unshift_capped e xs = take 100 (e # xs)"
  by (cases "length xs = 100") (simp_all add: unshift_capped_def butlast_conv_take)

text \<open>
  A call reads the persisted array, or the empty array when the item has expired.
\<close>

lemma read_history_stamped:
  assumes "stored_log P st = Some xs" and "log_stamped P st"
  shows "\<exists>st1. read_history P now st = Inr (if log_expired P now st then [] else xs, st1)"
proof (cases "no_item (st CHAT_HISTORY)")
  case True
  with assms(1) show ?thesis
    by (auto simp add: read_history_def loadFromStorage_def loadFromStorage_try_def truthy_def
        no_item_def stored_log_def log_expired_def stored_time_def split: option.splits)
next
  case False
  then obtain stored where s: "st CHAT_HISTORY = Some stored" "stored \<noteq> []"
    by (auto simp add: no_item_def split: option.splits)
  from False assms(2) obtain t where t: "stored_time P st = Some t"
    by (auto simp add: log_stamped_def)
  with s obtain parsed where
    p: "json_parse P stored = Inr parsed"
    and ts: "get_field parsed (str ''timestamp'') = Inr (JNum t)"
    by (auto simp add: stored_time_def split: sum.splits jsval.splits)
  from assms(1) s p have v: "get_field parsed (str ''value'') = Inr (JArr xs)"
    by (auto simp add: stored_log_def split: sum.splits jsval.splits)
  show ?thesis
    using s p ts v t
    by (simp add: read_history_def loadFromStorage_def loadFromStorage_try_def truthy_def
        to_number_def log_expired_def)
qed

lemma stored_log_written:
  assumes "codec_roundtrip P (storageData (JArr h) t)"
  shows "stored_log P (st(CHAT_HISTORY \<mapsto> stringified P (storageData (JArr h) t))) = Some h"
  using codec_roundtrip_stringified [OF assms] by (simp add: stored_log_def)


lemma stored_time_written:
  assumes "codec_roundtrip P (storageData d t)"
  shows "stored_time P (st(CHAT_HISTORY \<mapsto> stringified P (storageData d t))) = Some t"
  using codec_roundtrip_stringified [OF assms] by (simp add: stored_time_def)

lemma addEntry_step:
  assumes "stored_log P st = Some xs" and "length xs \<le> 100" and "log_stamped P st"
    and "faithful_run P st (c # cs)"
  shows "\<exists>st2. addEntry P st c = Inr (newEntry c, st2)
     \<and> stored_log P st2
         = Some (newEntry c # take 99 (if log_expired P (c_now c) st then [] else xs))
     \<and> stored_time P st2 = Some (c_now c) \<and> faithful_run P st2 cs"
proof -
  let ?zs = "if log_expired P (c_now c) st then [] else xs"
  from read_history_stamped [OF assms(1,3), of "c_now c"] obtain st1 where
    r: "read_history P (c_now c) st = Inr (?zs, st1)"
    by blast
  let ?h = "unshift_capped (newEntry c) ?zs"
  let ?stored = "stringified P (storageData (JArr ?h) (c_now c))"
  from assms(4) r have rt: "codec_roundtrip P (storageData (JArr ?h) (c_now c))"
    and q: "quota_accepts P st1 CHAT_HISTORY ?stored"
    and f: "faithful_run P (st1(CHAT_HISTORY \<mapsto> ?stored)) cs"
    by (simp_all add: written_def)
  have sv: "saveToStorage P (c_now c) st1 CHAT_HISTORY (JArr ?h) False
      = Inr (True, st1(CHAT_HISTORY \<mapsto> ?stored))"
    using dataToSave_plain codec_roundtrip_stringified(1) [OF rt] q
    by (rule saveToStorage_stored)
  have a: "addEntry P st c = Inr (newEntry c, st1(CHAT_HISTORY \<mapsto> ?stored))"
    by (simp add: addEntry_def r sv)
  from assms(2) have "length ?zs \<le> 100" by auto
  then have "?h = take 100 (newEntry c # ?zs)"
    by (rule unshift_capped_take)
  then have h: "?h = newEntry c # take 99 ?zs"
    by simp
  have l: "stored_log P (st1(CHAT_HISTORY \<mapsto> ?stored)) = Some (newEntry c # take 99 ?zs)"
    using stored_log_written [OF rt] h by simp
  have tm: "stored_time P (st1(CHAT_HISTORY \<mapsto> ?stored)) = Some (c_now c)"
    by (rule stored_time_written [OF rt])
  from a l tm f show ?thesis by blast
qed

lemma addEntry_all_append:
  "addEntry_all P st (cs @ [c])
     = and_then (addEntry_all P st cs) (\<lambda>st1. and_then (addEntry P st1 c) (\<lambda>(e, st2). Inr st2))"
proof (induction cs arbitrary: st)
  case Nil
  show ?case by (cases "addEntry P st c") (auto simp add: and_then_def)
next
  case (Cons a cs)
  show ?case
    by (cases "addEntry P st a") (auto simp add: Cons.IH)
qed

lemma run_prefix:
  assumes "stored_log P st = Some xs" and "length xs \<le> 100" and "log_stamped P st"
    and "faithful_run P st (cs @ rest)"
  shows "\<exists>st1 ws. addEntry_all P st cs = Inr st1 \<and> stored_log P st1 = Some ws
     \<and> length ws \<le> 100 \<and> log_stamped P st1
     \<and> (cs \<noteq> [] \<longrightarrow> stored_time P st1 = Some (c_now (last cs)))
     \<and> faithful_run P st1 rest"
  using assms
proof (induction cs arbitrary: st xs)
  case Nil
  then show ?case by simp
next
  case (Cons a cs)
  from Cons.prems(4) have f: "faithful_run P st (a # (cs @ rest))" by simp
  let ?ys = "newEntry a # take 99 (if log_expired P (c_now a) st then [] else xs)"
  from addEntry_step [OF Cons.prems(1,2,3) f] obtain st2 where
    a: "addEntry P st a = Inr (newEntry a, st2)"
    and l: "stored_log P st2 = Some ?ys"
    and t: "stored_time P st2 = Some (c_now a)"
    and f2: "faithful_run P st2 (cs @ rest)"
    by blast
  have n: "length ?ys \<le> 100" by simp
  from t have s: "log_stamped P st2" by (simp add: log_stamped_def)
  from Cons.IH [OF l n s f2] obtain st1 ws where
    r: "addEntry_all P st2 cs = Inr st1" "stored_log P st1 = Some ws" "length ws \<le> 100"
      "log_stamped P st1" "cs \<noteq> [] \<longrightarrow> stored_time P st1 = Some (c_now (last cs))"
      "faithful_run P st1 rest"
    by blast
  have "stored_time P st1 = Some (c_now (last (a # cs)))"
  proof (cases "cs = []")
    case True
    with r(1) t show ?thesis by simp
  next
    case False
    with r(5) show ?thesis by simp
  qed
  with a r show ?case by simp
qed

text \<open>
  C4. Start from a stamped store whose persisted log has at most 100 entries and make any
  sequence of \<open>addEntry\<close> calls on a faithful store. Before each call the log has at most
  100 entries and, after the first call, carries the time of the previous call. The call
  returns its new entry. Afterwards the log is the new entry followed by the first 99
  entries of the log before the call, in their order: the new entry is first, the log has
  at most 100 entries, and the last (oldest) entry is dropped exactly when there were
  100. The one exception is a log written more than \<open>EXPIRY_TIME\<close> (30 days) before the
  call: \<open>loadFromStorage\<close> discards it, and the log afterwards is the new entry alone.
\<close>

theorem addEntry_capped:
  assumes "stored_log P st = Some xs" and "length xs \<le> 100" and "log_stamped P st"
    and "faithful_run P st (cs @ [c])"
  shows "\<exists>st1 ws st2.
     addEntry_all P st cs = Inr st1 \<and> stored_log P st1 = Some ws \<and> length ws \<le> 100
     \<and> (cs \<noteq> [] \<longrightarrow> stored_time P st1 = Some (c_now (last cs)))
     \<and> addEntry P st1 c = Inr (newEntry c, st2) \<and> addEntry_all P st (cs @ [c]) = Inr st2
     \<and> stored_log P st2
         = Some (newEntry c # take 99 (if log_expired P (c_now c) st1 then [] else ws))
     \<and> stored_time P st2 = Some (c_now c)
     \<and> length (newEntry c # take 99 (if log_expired P (c_now c) st1 then [] else ws)) \<le> 100"
proof -
  from run_prefix [OF assms] obtain st1 ws where
    r: "addEntry_all P st cs = Inr st1" and l: "stored_log P st1 = Some ws"
    and n: "length ws \<le> 100" and s: "log_stamped P st1"
    and t: "cs \<noteq> [] \<longrightarrow> stored_time P st1 = Some (c_now (last cs))"
    and f: "faithful_run P st1 [c]"
    by blast
  from addEntry_step [OF l n s f] obtain st2 where
    a: "addEntry P st1 c = Inr (newEntry c, st2)"
    and l2: "stored_log P st2
         = Some (newEntry c # take 99 (if log_expired P (c_now c) st1 then [] else ws))"
    and t2: "stored_time P st2 = Some (c_now c)"
    by blast
  have all: "addEntry_all P st (cs @ [c]) = Inr st2"
    by (simp add: addEntry_all_append r a)
  from r l n t a all l2 t2 show ?thesis by auto
qed

lemmas chat_eval =
  read_history_def loadFromStorage_def loadFromStorage_try_def addEntry_def
  saveToStorage_def saveToStorage_try_def setItem_def empty_store_def
  first_call_def second_call_def newEntry_def written_def toString36_def show_nat36.simps
  unshift_capped_def truthy_def CHAT_HISTORY_def get_field_def to_number_def
  num_gt_def num_minus_def EXPIRY_TIME_def decompress_def dataToSave_def

lemma sample_run: "faithful_run sample_platform empty_store ([first_call] @ [second_call])"
  by (simp add: sample_eval chat_eval)

lemma sample_run_log:
  "(case addEntry_all sample_platform empty_store ([first_call] @ [second_call]) of
      Inr st \<Rightarrow> stored_log sample_platform st
    | Inl error \<Rightarrow> None)
   = Some [newEntry second_call, newEntry first_call]"
  by (simp add: sample_eval chat_eval stored_log_def)

text \<open>
  The sample platform on the log at the cap: the JSON text of the array of 99 entries \<open>7\<close>
  and a last digit, and its parse.
\<close>

lemma collect_append:
  "collect (ms @ ns)
     = and_then (collect ms) (\<lambda>a. and_then (collect ns) (\<lambda>b. Inr (a @ b)))"
  by (induction ms) (auto simp add: and_then_def split: sum.splits)

lemma collect_sevens:
  "collect (replicate n (Inr [55])) = Inr (replicate n [55])"
  by (induction n) simp_all

lemma join_comma_cons: "xs \<noteq> [] \<Longrightarrow> join_comma (a # xs) = a @ 44 # join_comma xs"
  by (cases xs) simp_all

lemma join_comma_sevens:
  "join_comma (replicate n [55] @ [[l]]) = concat (replicate n [55, 44]) @ [l]"
  by (induction n) (simp_all add: join_comma_cons)

lemma parse_sevens:
  assumes "is_digit l" and "n + 2 \<le> f"
  shows "parse_elements f (concat (replicate n [55, 44]) @ l # 93 # rest)
     = Some (replicate n (JNum 7) @ [JNum (int (l - 48))], rest)"
  using assms
proof (induction n arbitrary: f)
  case 0
  then obtain g where g: "f = Suc (Suc g)"
    by (metis add_0 add_2_eq_Suc le_Suc_ex add_Suc)
  from 0 show ?case
    unfolding g
    by (simp add: parse_elements.simps [of "Suc (Suc g)"] parse_value.simps [of "Suc g"]
        skip_ws_def is_ws_def is_digit_def parse_nat_def)
next
  case (Suc n)
  then obtain g where g: "f = Suc (Suc g)"
    by (metis add_2_eq_Suc le_Suc_ex add_Suc add.commute)
  from Suc.prems have "n + 2 \<le> Suc g" by (simp add: g)
  from Suc.IH [OF Suc.prems(1) this] show ?case
    unfolding g
    by (simp add: parse_elements.simps [of "Suc (Suc g)"] parse_value.simps [of "Suc g"]
        skip_ws_def is_ws_def is_digit_def parse_nat_def cons_fst_def)
qed

lemma length_sevens [simp]: "length (concat (replicate n [55, 44 :: nat])) = 2 * n"
  by (induction n) simp_all

lemma parse_sevens_array:
  assumes "is_digit l" and "n + 3 \<le> f"
  shows "parse_value f (91 # concat (replicate n [55, 44]) @ l # 93 # rest)
     = Some (JArr (replicate n (JNum 7) @ [JNum (int (l - 48))]), rest)"
proof -
  from assms(2) obtain g where g: "f = Suc g" and n: "n + 2 \<le> g"
    by (cases f) simp_all
  note p = parse_sevens [OF assms(1) n, of rest]
  show ?thesis
  proof (cases n)
    case 0
    with p assms(1) show ?thesis
      unfolding g
      by (simp add: parse_value.simps [of "Suc g"] skip_ws_def is_ws_def is_digit_def)
  next
    case (Suc m)
    with p show ?thesis
      unfolding g
      by (simp add: parse_value.simps [of "Suc g"] skip_ws_def is_ws_def is_digit_def)
  qed
qed

lemma full_text:
  "json_stringify sample_platform (storageData (JArr full_log) 500)
     = Inr (str ''{\"value\":['' @ concat (replicate 99 [55, 44])
            @ str ''8],\"timestamp\":500,\"version\":\"1.0\"}'')"
  by (simp add: sample_platform_def storageData_def full_log_def collect_append collect_sevens
      join_comma_sevens quote_plain plain_literals show_int_def show_nat.simps)
    (simp add: str_def)

lemma full_parse:
  "json_parse sample_platform
     (str ''{\"value\":['' @ concat (replicate 99 [55, 44])
        @ str ''8],\"timestamp\":500,\"version\":\"1.0\"}'')
     = Inr (storageData (JArr full_log) 500)"
  by (simp add: sample_platform_def parse_text_def str_def)
    (simp add: parse_value.simps [of 488] parse_value.simps [of 485] parse_value.simps [of 484]
      parse_members.simps skip_ws_def
      is_ws_def is_digit_def expect_def parse_nat_def cons_fst_def string_body_plain
      parse_sevens_array storageData_def str_def full_log_def)

lemma join_comma_all_sevens:
  "0 < n \<Longrightarrow> join_comma (replicate n [55]) = concat (replicate (n - 1) [55, 44]) @ [55]"
  using join_comma_sevens [of "n - 1" 55] by (cases n) (simp_all add: replicate_append_same)

lemma full_rt: "codec_roundtrip sample_platform (storageData (JArr full_log) 500)"
  by (simp add: codec_roundtrip_def full_text full_parse)

lemma capped_entries:
  "unshift_capped (newEntry first_call) full_log = newEntry first_call # replicate 99 (JNum 7)"
  by (simp add: unshift_capped_def full_log_def)

lemma capped_text:
  "json_stringify sample_platform (written first_call full_log)
     = Inr (str ''{\"value\":[{\"id\":\"rsk3x9\",\"userInput\":\"hello\",\"aiResponse\":\"hi\",\"category\":\"general\",\"timestamp\":1000,\"tags\":[]},''
            @ concat (replicate 98 [55, 44])
            @ str ''7],\"timestamp\":1000,\"version\":\"1.0\"}'')"
  by (simp add: written_def capped_entries)
    (simp add: sample_platform_def storageData_def newEntry_def first_call_def toString36_def
      show_nat36.simps collect_sevens join_comma_cons join_comma_all_sevens quote_def quote_unit_def
      show_int_def show_nat.simps str_def)

lemma replicate_99: "replicate 99 a = a # replicate 98 a"
proof -
  have "(99 :: nat) = Suc 98" by simp
  then show ?thesis by (simp only: replicate_Suc)
qed

lemma capped_parse:
  "json_parse sample_platform
     (str ''{\"value\":[{\"id\":\"rsk3x9\",\"userInput\":\"hello\",\"aiResponse\":\"hi\",\"category\":\"general\",\"timestamp\":1000,\"tags\":[]},''
            @ concat (replicate 98 [55, 44])
            @ str ''7],\"timestamp\":1000,\"version\":\"1.0\"}'')
     = Inr (written first_call full_log)"
  unfolding written_def capped_entries replicate_99
  by (simp add: sample_platform_def parse_text_def str_def)
    (simp add: parse_value.simps parse_members.simps parse_elements.simps [of 687] skip_ws_def
      is_ws_def is_digit_def expect_def parse_nat_def cons_fst_def unescape_def
      parse_sevens [of 55 98 686, simplified] storageData_def str_def newEntry_def
      first_call_def toString36_def show_nat36.simps replicate_append_same replicate_99)

lemma capped_rt: "codec_roundtrip sample_platform (written first_call full_log)"
  by (simp add: codec_roundtrip_def capped_text capped_parse)

lemma full_store_facts:
  "stored_log sample_platform full_store = Some full_log"
  "stored_time sample_platform full_store = Some 500"
  "length full_log = 100"
  unfolding full_store_def
  by (rule stored_log_written [OF full_rt], rule stored_time_written [OF full_rt])
    (simp add: full_log_def)

lemma full_store_age:
  "\<not> log_expired sample_platform (c_now first_call) full_store"
  "log_expired sample_platform (c_now late_call) full_store"
  by (simp_all add: log_expired_def full_store_facts EXPIRY_TIME_def first_call_def late_call_def)

lemma full_store_stamped: "log_stamped sample_platform full_store"
  by (simp add: log_stamped_def full_store_facts)

lemma capped_run: "faithful_run sample_platform full_store ([] @ [first_call])"
proof -
  from read_history_stamped [OF full_store_facts(1) full_store_stamped, of "c_now first_call"]
    full_store_age(1)
  obtain st1 where "read_history sample_platform (c_now first_call) full_store = Inr (full_log, st1)"
    by auto
  then show ?thesis
    using capped_rt
    by (simp add: stringified_def capped_text)
      (simp add: sample_platform_def sample_quota_def str_def)
qed

lemma expired_run: "faithful_run sample_platform full_store ([] @ [late_call])"
proof -
  from read_history_stamped [OF full_store_facts(1) full_store_stamped, of "c_now late_call"]
    full_store_age(2)
  obtain st1 where "read_history sample_platform (c_now late_call) full_store = Inr ([], st1)"
    by auto
  then show ?thesis
    by (simp add: sample_eval written_def late_call_def newEntry_def toString36_def
        show_nat36.simps unshift_capped_def)
qed

theorem addEntry_capped_witness:
  "stored_log sample_platform full_store = Some full_log \<and> length full_log \<le> 100
   \<and> log_stamped sample_platform full_store
   \<and> faithful_run sample_platform full_store ([] @ [first_call])
   \<and> \<not> log_expired sample_platform (c_now first_call) full_store
   \<and> (case addEntry sample_platform full_store first_call of
         Inr (e, st) \<Rightarrow> (e, stored_log sample_platform st)
       | Inl error \<Rightarrow> (JNull, None))
      = (newEntry first_call, Some (newEntry first_call # replicate 99 (JNum 7)))
   \<and> faithful_run sample_platform full_store ([] @ [late_call])
   \<and> log_expired sample_platform (c_now late_call) full_store
   \<and> (case addEntry sample_platform full_store late_call of
         Inr (e, st) \<Rightarrow> (e, stored_log sample_platform st)
       | Inl error \<Rightarrow> (JNull, None))
      = (newEntry late_call, Some [newEntry late_call])
   \<and> stored_log sample_platform empty_store = Some []
   \<and> log_stamped sample_platform empty_store
   \<and> faithful_run sample_platform empty_store ([first_call] @ [second_call])
   \<and> (case addEntry_all sample_platform empty_store ([first_call] @ [second_call]) of
         Inr st \<Rightarrow> (stored_log sample_platform st, stored_time sample_platform st)
       | Inl error \<Rightarrow> (None, None))
      = (Some [newEntry second_call, newEntry first_call], Some 2000)"
proof -
  have n: "length full_log \<le> 100"
    by (simp add: full_store_facts)
  from addEntry_capped [OF full_store_facts(1) n full_store_stamped capped_run]
    full_store_facts(1) full_store_age(1)
  have a: "(case addEntry sample_platform full_store first_call of
         Inr (e, st) \<Rightarrow> (e, stored_log sample_platform st)
       | Inl error \<Rightarrow> (JNull, None))
      = (newEntry first_call, Some (newEntry first_call # replicate 99 (JNum 7)))"
    by (auto simp add: full_log_def)
  from addEntry_capped [OF full_store_facts(1) n full_store_stamped expired_run]
    full_store_facts(1) full_store_age(2)
  have b: "(case addEntry sample_platform full_store late_call of
         Inr (e, st) \<Rightarrow> (e, stored_log sample_platform st)
       | Inl error \<Rightarrow> (JNull, None))
      = (newEntry late_call, Some [newEntry late_call])"
    by auto
  have l: "stored_log sample_platform empty_store = Some []"
    by (simp add: stored_log_def empty_store_def)
  have m: "length ([] :: jsval list) \<le> 100"
    by simp
  have s: "log_stamped sample_platform empty_store"
    by (simp add: log_stamped_def no_item_def empty_store_def)
  from addEntry_capped [OF l m s sample_run]
  obtain st2 where "addEntry_all sample_platform empty_store ([first_call] @ [second_call]) = Inr st2"
    and "stored_time sample_platform st2 = Some (c_now second_call)"
    by blast
  with sample_run_log
  have c: "(case addEntry_all sample_platform empty_store ([first_call] @ [second_call]) of
         Inr st \<Rightarrow> (stored_log sample_platform st, stored_time sample_platform st)
       | Inl error \<Rightarrow> (None, None))
      = (Some [newEntry second_call, newEntry first_call], Some 2000)"
    by (simp add: second_call_def)
  from a b c n l s full_store_facts(1) full_store_stamped capped_run expired_run sample_run
    full_store_age
  show ?thesis by simp
qed

end
